theory Spec2Isabelle
  imports Complex_Main "HOL-Library.Multiset"
begin

section \<open>Data model\<close>

text \<open>
  The repository is two Python files: \<^verbatim>\<open>video_maker_lib.py\<close> (scene breakdown, the four
  asset fetchers, the video assembler) and \<^verbatim>\<open>app.py\<close> (the form, the shot-list handler and
  the dispatch loop). The embedding below follows the code function by function.

  Paths and byte strings are Python strings.
\<close>

type_synonym path = string
type_synonym bytes = string

text \<open>
  A scene is one record of the shot list, with the four keys the system prompt of
  \<^verbatim>\<open>generate_scene_breakdown\<close> names. The dispatch loop reads the visual type with
  \<^verbatim>\<open>scene.get('visual_type')\<close>, which yields \<^verbatim>\<open>None\<close> for a missing key, so that field
  is optional here; a value that is not a string compares unequal to every string literal
  and is represented by \<open>None\<close> as well.
\<close>

record scene =
  scene_number :: int
  narration_text :: string
  visual_prompt :: string
  visual_type :: "string option"

subsection \<open>Decoded JSON values\<close>

text \<open>
  What \<^verbatim>\<open>json.loads\<close> and \<^verbatim>\<open>response.json()\<close> return. An object is the parsed
  dictionary, kept as an association list and read with \<open>map_of\<close>. Numbers are restricted
  to integers.
\<close>

datatype json =
    JNull
  | JBool bool
  | JNum int
  | JStr string
  | JArr "json list"
  | JObj "(string \<times> json) list"

text \<open>Python truthiness, as used by \<^verbatim>\<open>if scenes_list:\<close> and \<^verbatim>\<open>if not results['videos']\<close>.\<close>

fun truthy :: "json \<Rightarrow> bool" where
  "truthy JNull = False"
| "truthy (JBool b) = b"
| "truthy (JNum n) = (n \<noteq> 0)"
| "truthy (JStr s) = (s \<noteq> [])"
| "truthy (JArr xs) = (xs \<noteq> [])"
| "truthy (JObj kvs) = (kvs \<noteq> [])"

text \<open>Exceptions, as values. The remote services supply the text of their own failures.\<close>

datatype exn =
    KeyError string
  | IndexError
  | TypeError
  | JSONDecodeError
  | HTTPError nat
  | RequestException string
  | ApiError string

text \<open>\<^verbatim>\<open>value[key]\<close> for a string key: only a dictionary that has the key answers.\<close>

fun subscript_key :: "json \<Rightarrow> string \<Rightarrow> exn + json" where
  "subscript_key (JObj kvs) k = (case map_of kvs k of None \<Rightarrow> Inl (KeyError k) | Some v \<Rightarrow> Inr v)"
| "subscript_key _ k = Inl TypeError"

text \<open>
  \<^verbatim>\<open>value[0]\<close>: the first element of a list, the first character of a string; a
  dictionary decoded from JSON has string keys only, so \<^verbatim>\<open>d[0]\<close> is a KeyError.
\<close>

fun subscript_0 :: "json \<Rightarrow> exn + json" where
  "subscript_0 (JArr []) = Inl IndexError"
| "subscript_0 (JArr (x # xs)) = Inr x"
| "subscript_0 (JStr []) = Inl IndexError"
| "subscript_0 (JStr (c # cs)) = Inr (JStr [c])"
| "subscript_0 (JObj kvs) = Inl (KeyError ''0'')"
| "subscript_0 _ = Inl TypeError"

section \<open>The shot-list handler of \<^verbatim>\<open>app.py\<close> (lines 46 to 59)\<close>

text \<open>
  Line 26 of \<^verbatim>\<open>app.py\<close> is indented one space deeper than the block it stands in, so
  the interpreter refuses the file as it is written. The handler and the dispatch loop
  are embedded as their own lines read.

  \<^verbatim>\<open>generate_scene_breakdown\<close> returns the decoded response of the language model, or
  \<^verbatim>\<open>None\<close> (here \<open>JNull\<close>) when the call or the decoding raised. The handler picks the
  list of scenes out of it and hands it to \<^verbatim>\<open>pd.DataFrame\<close>, which is kept symbolic: the
  shot list is the constructor applied to the value it was given.
\<close>

datatype dataframe = DataFrame json

definition pick_scenes_list :: "json \<Rightarrow> json" where
  "pick_scenes_list shot_list_data =
     (case shot_list_data of
        JObj kvs \<Rightarrow> (case map_of kvs ''scenes'' of Some v \<Rightarrow> v | None \<Rightarrow> JArr [])
      | JArr xs \<Rightarrow> JArr xs
      | _ \<Rightarrow> JArr [])"

text \<open>
  The handler maps the session's shot list to the new one and says whether it reported
  success (\<^verbatim>\<open>st.success\<close>) or failure (\<^verbatim>\<open>st.error\<close>, shot list untouched).
\<close>

definition generate_shot_list :: "json \<Rightarrow> dataframe \<Rightarrow> dataframe \<times> bool" where
  "generate_shot_list shot_list_data shot_list_df =
     (let scenes_list = pick_scenes_list shot_list_data in
      if truthy scenes_list then (DataFrame scenes_list, True)
      else (shot_list_df, False))"

section \<open>The dispatch loop of \<^verbatim>\<open>app.py\<close> (lines 78 to 87)\<close>

text \<open>One submitted task: the fetcher and the arguments \<^verbatim>\<open>executor.submit\<close> was given.\<close>

datatype task =
    Submit_generate_audio scene string string
  | Submit_generate_image scene string
  | Submit_download_stock_video scene string
  | Submit_generate_video scene string

record credentials =
  stability_key :: string
  elevenlabs_key :: string
  pexels_key :: string
  voice_id :: string

definition scene_tasks :: "credentials \<Rightarrow> scene \<Rightarrow> task list" where
  "scene_tasks cr scene =
     [Submit_generate_audio scene (elevenlabs_key cr) (voice_id cr),
      (if visual_type scene = Some ''image'' then Submit_generate_image scene (stability_key cr)
       else if visual_type scene = Some ''stock_footage''
         then Submit_download_stock_video scene (pexels_key cr)
       else Submit_generate_video scene (stability_key cr))]"

fun future_tasks :: "credentials \<Rightarrow> scene list \<Rightarrow> task list" where
  "future_tasks cr [] = []"
| "future_tasks cr (scene # edited_shot_list) =
     scene_tasks cr scene @ future_tasks cr edited_shot_list"

text \<open>Which kind of task a submitted task is, and the scene it was submitted for.\<close>

fun is_audio_task :: "task \<Rightarrow> bool" where
  "is_audio_task (Submit_generate_audio scene api_key voice) = True"
| "is_audio_task (Submit_generate_image scene api_key) = False"
| "is_audio_task (Submit_download_stock_video scene api_key) = False"
| "is_audio_task (Submit_generate_video scene api_key) = False"

fun task_scene :: "task \<Rightarrow> scene" where
  "task_scene (Submit_generate_audio scene api_key voice) = scene"
| "task_scene (Submit_generate_image scene api_key) = scene"
| "task_scene (Submit_download_stock_video scene api_key) = scene"
| "task_scene (Submit_generate_video scene api_key) = scene"

section \<open>Files, the remote services and the trace of what a run did\<close>

text \<open>\<^verbatim>\<open>str\<close> of an integer, as the f-strings that build the asset paths format it.\<close>

fun str_nat :: "nat \<Rightarrow> string" where
  "str_nat n =
     (if n < 10 then [''0123456789'' ! n]
      else str_nat (n div 10) @ [''0123456789'' ! (n mod 10)])"

declare str_nat.simps [simp del]

definition str_int :: "int \<Rightarrow> string" where
  "str_int i = (if i < 0 then ''-'' @ str_nat (nat (- i)) else str_nat (nat i))"

text \<open>The three deterministic asset paths of a scene number (the same f-strings in every function).\<close>

definition audio_path_of :: "int \<Rightarrow> path" where
  "audio_path_of scene_num = ''audio_clips/scene_'' @ str_int scene_num @ ''.mp3''"

definition image_path_of :: "int \<Rightarrow> path" where
  "image_path_of scene_num = ''visual_assets/scene_'' @ str_int scene_num @ ''.png''"

definition video_path_of :: "int \<Rightarrow> path" where
  "video_path_of scene_num = ''visual_assets/scene_'' @ str_int scene_num @ ''.mp4''"

subsection \<open>What the assembler composes\<close>

text \<open>
  The video library is kept symbolic: a clip is the expression that built it. The numbers
  of the configuration and the durations of clips are floats; a float is modelled by the
  rational number it denotes, and the one computation the code makes on them (line 189,
  an end time minus the transition duration) is exact in the model.
\<close>

type_synonym pyfloat = rat

datatype duration = Duration_of_audio path

datatype visual_clip =
    VideoFileClip path
  | Zoomed_cropped_ImageClip path duration

record composite =
  visual :: visual_clip
  audio :: path
  caption :: string

datatype placed_clip =
    As_is composite
  | Faded_in_overlapping composite pyfloat

record movie =
  timeline :: "placed_clip list"
  music :: "(path \<times> pyfloat) option"

datatype file_data = Blob bytes | Encoded movie

record config =
  TRANSITION_DURATION :: pyfloat
  MUSIC_FILE :: path
  MUSIC_VOLUME :: pyfloat

subsection \<open>Requests, responses, events\<close>

text \<open>
  One constructor per remote call of the source:
  \<^item> \<open>TextToSpeech api_key text voice\<close>: \<^verbatim>\<open>ElevenLabs(api_key).generate(text, voice)\<close>;
  \<^item> \<open>GenerateImage api_key prompt\<close>: the POST to \<^verbatim>\<open>stable-image/generate/sd3\<close>;
  \<^item> \<open>SearchVideos api_key query orientation per_page\<close>: the GET of the stock-footage search;
  \<^item> \<open>GetUrl url\<close>: \<^verbatim>\<open>requests.get(video_url)\<close>, the url being whatever the search result held;
  \<^item> \<open>GenerateVideo api_key prompt\<close>: the POST to \<^verbatim>\<open>generation/generate-video\<close>;
  \<^item> \<open>VideoResult api_key generation_id\<close>: the GET of \<^verbatim>\<open>generation/video-result/<id>\<close>.
\<close>

datatype request =
    TextToSpeech string string string
  | GenerateImage string string
  | SearchVideos string string string nat
  | GetUrl json
  | GenerateVideo string string
  | VideoResult string json

record http_response =
  status_code :: nat
  content :: bytes
  body_json :: "json option"

datatype event =
    Call request
  | Sleep nat
  | Print string exn

text \<open>
  The state a run works on: the files on disk and the trace of remote calls, sleeps and
  printed error lines so far.
\<close>

record world =
  fs :: "path \<rightharpoonup> file_data"
  trace :: "event list"

text \<open>
  The remote services are black boxes: an answer may depend on everything that happened
  before (the trace) and on the request. A call either raises or answers. The speech
  service answers with a stream: the chunks it yields, and the exception that ends the
  stream early, if any.
\<close>

record remote =
  speech :: "event list \<Rightarrow> request \<Rightarrow> exn + (bytes list \<times> exn option)"
  http :: "event list \<Rightarrow> request \<Rightarrow> exn + http_response"

definition exists_path :: "world \<Rightarrow> path \<Rightarrow> bool" where
  "exists_path w p = (fs w p \<noteq> None)"

definition write_file :: "path \<Rightarrow> file_data \<Rightarrow> world \<Rightarrow> world" where
  "write_file p f w = w\<lparr>fs := (fs w)(p \<mapsto> f)\<rparr>"

definition log_event :: "event \<Rightarrow> world \<Rightarrow> world" where
  "log_event e w = w\<lparr>trace := trace w @ [e]\<rparr>"

text \<open>
  \<^verbatim>\<open>Response.raise_for_status()\<close> of the HTTP library raises for the client and server
  error codes, 400 to 599, and returns for every other code.
\<close>

definition raise_for_status :: "http_response \<Rightarrow> exn option" where
  "raise_for_status r =
     (if 400 \<le> status_code r \<and> status_code r < 600 then Some (HTTPError (status_code r))
      else None)"

text \<open>
  Every fetcher wraps its work in \<^verbatim>\<open>try ... except Exception as e: print(...)\<close>: the body
  yields the exception it raised, if any, and the handler prints it.
\<close>

definition except_print :: "string \<Rightarrow> int \<Rightarrow> exn option \<times> world \<Rightarrow> world" where
  "except_print msg scene_num r =
     (case r of
        (None, w) \<Rightarrow> w
      | (Some e, w) \<Rightarrow> log_event (Print (msg @ str_int scene_num) e) w)"

section \<open>The asset fetchers of \<^verbatim>\<open>video_maker_lib.py\<close>\<close>

subsection \<open>\<^verbatim>\<open>generate_audio\<close> (lines 55 to 68)\<close>

text \<open>
  \<^verbatim>\<open>open(output_path, "wb")\<close> creates the file before the first chunk is written, so a
  stream that breaks leaves the chunks written so far.
\<close>

definition generate_audio_try ::
  "remote \<Rightarrow> scene \<Rightarrow> string \<Rightarrow> string \<Rightarrow> path \<Rightarrow> world \<Rightarrow> exn option \<times> world" where
  "generate_audio_try R scene_data api_key voice output_path w =
     (let req = TextToSpeech api_key (narration_text scene_data) voice;
          w1 = log_event (Call req) w
      in case speech R (trace w) req of
           Inl e \<Rightarrow> (Some e, w1)
         | Inr (chunks, broken) \<Rightarrow> (broken, write_file output_path (Blob (concat chunks)) w1))"

definition generate_audio :: "remote \<Rightarrow> scene \<Rightarrow> string \<Rightarrow> string \<Rightarrow> world \<Rightarrow> world" where
  "generate_audio R scene_data api_key voice w =
     (let scene_num = scene_number scene_data;
          output_path = audio_path_of scene_num
      in if exists_path w output_path then w
         else except_print ''Error generating audio for Scene '' scene_num
                (generate_audio_try R scene_data api_key voice output_path w))"

subsection \<open>\<^verbatim>\<open>generate_image\<close> (lines 71 to 87)\<close>

definition generate_image_try ::
  "remote \<Rightarrow> scene \<Rightarrow> string \<Rightarrow> path \<Rightarrow> world \<Rightarrow> exn option \<times> world" where
  "generate_image_try R scene_data api_key output_path w =
     (let req = GenerateImage api_key (visual_prompt scene_data);
          w1 = log_event (Call req) w
      in case http R (trace w) req of
           Inl e \<Rightarrow> (Some e, w1)
         | Inr response \<Rightarrow>
             (case raise_for_status response of
                Some e \<Rightarrow> (Some e, w1)
              | None \<Rightarrow> (None, write_file output_path (Blob (content response)) w1)))"

definition generate_image :: "remote \<Rightarrow> scene \<Rightarrow> string \<Rightarrow> world \<Rightarrow> world" where
  "generate_image R scene_data api_key w =
     (let scene_num = scene_number scene_data;
          output_path = image_path_of scene_num
      in if exists_path w output_path then w
         else except_print ''Error generating image for Scene '' scene_num
                (generate_image_try R scene_data api_key output_path w))"

subsection \<open>\<^verbatim>\<open>download_stock_video\<close> (lines 89 to 109)\<close>

text \<open>\<^verbatim>\<open>results['videos'][0]['video_files'][0]['link']\<close>, each subscript able to raise.\<close>

definition first_link :: "json \<Rightarrow> exn + json" where
  "first_link results =
     (case subscript_key results ''videos'' of Inl e \<Rightarrow> Inl e | Inr videos \<Rightarrow>
     (case subscript_0 videos of Inl e \<Rightarrow> Inl e | Inr video \<Rightarrow>
     (case subscript_key video ''video_files'' of Inl e \<Rightarrow> Inl e | Inr video_files \<Rightarrow>
     (case subscript_0 video_files of Inl e \<Rightarrow> Inl e | Inr video_file \<Rightarrow>
      subscript_key video_file ''link''))))"

text \<open>
  The second request and the write, lines 104 to 107.
\<close>

definition download_link :: "remote \<Rightarrow> json \<Rightarrow> path \<Rightarrow> world \<Rightarrow> exn option \<times> world" where
  "download_link R video_url output_path w1 =
     (let w2 = log_event (Call (GetUrl video_url)) w1
      in case http R (trace w1) (GetUrl video_url) of
           Inl e \<Rightarrow> (Some e, w2)
         | Inr video_response \<Rightarrow>
             (case raise_for_status video_response of
                Some e \<Rightarrow> (Some e, w2)
              | None \<Rightarrow> (None, write_file output_path (Blob (content video_response)) w2)))"

definition download_stock_video_try ::
  "remote \<Rightarrow> scene \<Rightarrow> string \<Rightarrow> path \<Rightarrow> world \<Rightarrow> exn option \<times> world" where
  "download_stock_video_try R scene_data api_key output_path w =
     (let req = SearchVideos api_key (visual_prompt scene_data) ''landscape'' 1;
          w1 = log_event (Call req) w
      in case http R (trace w) req of
           Inl e \<Rightarrow> (Some e, w1)
         | Inr response \<Rightarrow>
     (case raise_for_status response of Some e \<Rightarrow> (Some e, w1) | None \<Rightarrow>
     (case body_json response of None \<Rightarrow> (Some JSONDecodeError, w1) | Some results \<Rightarrow>
     (case subscript_key results ''videos'' of Inl e \<Rightarrow> (Some e, w1) | Inr videos \<Rightarrow>
        if \<not> truthy videos then (None, w1)
        else (case first_link results of
                Inl e \<Rightarrow> (Some e, w1)
              | Inr video_url \<Rightarrow> download_link R video_url output_path w1)))))"

definition download_stock_video :: "remote \<Rightarrow> scene \<Rightarrow> string \<Rightarrow> world \<Rightarrow> world" where
  "download_stock_video R scene_data api_key w =
     (let scene_num = scene_number scene_data;
          output_path = video_path_of scene_num
      in if exists_path w output_path then w
         else except_print ''Error downloading stock video for Scene '' scene_num
                (download_stock_video_try R scene_data api_key output_path w))"

subsection \<open>\<^verbatim>\<open>generate_video\<close> (lines 111 to 139)\<close>

text \<open>
  The polling loop, lines 126 to 137: \<^verbatim>\<open>while True\<close> with one \<^verbatim>\<open>break\<close>. It may run for
  ever, so it is a partial function: \<open>None\<close> is the loop that never leaves. When it leaves
  it yields the exception that left it, if any, for the handler of the fetcher.
\<close>

partial_function (option) poll_video_result ::
  "remote \<Rightarrow> string \<Rightarrow> json \<Rightarrow> path \<Rightarrow> world \<Rightarrow> (exn option \<times> world) option" where
  "poll_video_result R api_key generation_id output_path w =
     (let w1 = log_event (Sleep 20) w;
          req = VideoResult api_key generation_id;
          w2 = log_event (Call req) w1
      in case http R (trace w1) req of
           Inl e \<Rightarrow> Some (Some e, w2)
         | Inr result_response \<Rightarrow>
             if status_code result_response = 200
             then Some (None, write_file output_path (Blob (content result_response)) w2)
             else if status_code result_response \<noteq> 202
             then (case raise_for_status result_response of
                     Some e \<Rightarrow> Some (Some e, w2)
                   | None \<Rightarrow> poll_video_result R api_key generation_id output_path w2)
             else poll_video_result R api_key generation_id output_path w2)"

definition generate_video_try ::
  "remote \<Rightarrow> scene \<Rightarrow> string \<Rightarrow> path \<Rightarrow> world \<Rightarrow> (exn option \<times> world) option" where
  "generate_video_try R scene_data api_key output_path w =
     (let req = GenerateVideo api_key (visual_prompt scene_data);
          w1 = log_event (Call req) w
      in case http R (trace w) req of
           Inl e \<Rightarrow> Some (Some e, w1)
         | Inr response \<Rightarrow>
     (case raise_for_status response of Some e \<Rightarrow> Some (Some e, w1) | None \<Rightarrow>
     (case body_json response of None \<Rightarrow> Some (Some JSONDecodeError, w1) | Some js \<Rightarrow>
     (case subscript_key js ''id'' of
        Inl e \<Rightarrow> Some (Some e, w1)
      | Inr generation_id \<Rightarrow> poll_video_result R api_key generation_id output_path w1))))"

definition generate_video :: "remote \<Rightarrow> scene \<Rightarrow> string \<Rightarrow> world \<Rightarrow> world option" where
  "generate_video R scene_data api_key w =
     (let scene_num = scene_number scene_data;
          output_path = video_path_of scene_num
      in if exists_path w output_path then Some w
         else map_option (except_print ''Error generating video for Scene '' scene_num)
                (generate_video_try R scene_data api_key output_path w))"

section \<open>Running the submitted tasks\<close>

text \<open>
  The pool of \<^verbatim>\<open>app.py\<close> runs the tasks on five threads. The model runs them one after
  another in the order they were submitted, each fetcher as one step; a task that never
  returns keeps the dispatcher from returning.
\<close>

fun run_task :: "remote \<Rightarrow> task \<Rightarrow> world \<Rightarrow> world option" where
  "run_task R (Submit_generate_audio scene api_key voice) w =
     Some (generate_audio R scene api_key voice w)"
| "run_task R (Submit_generate_image scene api_key) w = Some (generate_image R scene api_key w)"
| "run_task R (Submit_download_stock_video scene api_key) w =
     Some (download_stock_video R scene api_key w)"
| "run_task R (Submit_generate_video scene api_key) w = generate_video R scene api_key w"

fun run_tasks :: "remote \<Rightarrow> task list \<Rightarrow> world \<Rightarrow> world option" where
  "run_tasks R [] w = Some w"
| "run_tasks R (t # ts) w =
     (case run_task R t w of None \<Rightarrow> None | Some w' \<Rightarrow> run_tasks R ts w')"

text \<open>The file a task's fetcher checks for and writes.\<close>

fun target_file :: "task \<Rightarrow> path" where
  "target_file (Submit_generate_audio scene api_key voice) = audio_path_of (scene_number scene)"
| "target_file (Submit_generate_image scene api_key) = image_path_of (scene_number scene)"
| "target_file (Submit_download_stock_video scene api_key) = video_path_of (scene_number scene)"
| "target_file (Submit_generate_video scene api_key) = video_path_of (scene_number scene)"

section \<open>The video assembler, \<^verbatim>\<open>assemble_video\<close> (lines 150 to 198)\<close>

text \<open>\<^verbatim>\<open>create_animated_image_clip\<close> (lines 143 to 148), symbolic as the rest of the video library.\<close>

definition create_animated_image_clip :: "path \<Rightarrow> duration \<Rightarrow> visual_clip" where
  "create_animated_image_clip image_path audio_duration =
     Zoomed_cropped_ImageClip image_path audio_duration"

text \<open>
  The loop over the sorted shot list, lines 159 to 182. \<open>scene_clips\<close> is the list the loop
  appends to; each clip is kept together with the scene it was made for.
\<close>

fun scene_clips_loop ::
  "world \<Rightarrow> scene list \<Rightarrow> (scene \<times> composite) list \<Rightarrow> (scene \<times> composite) list" where
  "scene_clips_loop w [] scene_clips = scene_clips"
| "scene_clips_loop w (scene # rest) scene_clips =
     (let scene_num = scene_number scene;
          audio_path = audio_path_of scene_num;
          video_path = video_path_of scene_num;
          image_path = image_path_of scene_num
      in if \<not> exists_path w audio_path then scene_clips_loop w rest scene_clips
         else
           (let visual_clip =
                  (if exists_path w video_path then Some (VideoFileClip video_path)
                   else if exists_path w image_path
                     then Some (create_animated_image_clip image_path (Duration_of_audio audio_path))
                   else None)
            in case visual_clip of
                 None \<Rightarrow> scene_clips_loop w rest scene_clips
               | Some v \<Rightarrow>
                   scene_clips_loop w rest
                     (scene_clips @
                      [(scene, \<lparr>visual = v, audio = audio_path, caption = narration_text scene\<rparr>)])))"

text \<open>
  Lines 186 to 189: the first clip as it is, then clip \<open>i + 1\<close> for every
  \<open>i\<close> of \<^verbatim>\<open>range(len(scene_clips) - 1)\<close>, faded in and started before the end of its
  predecessor.
\<close>

definition with_transitions :: "pyfloat \<Rightarrow> composite list \<Rightarrow> placed_clip list" where
  "with_transitions transition_duration scene_clips =
     As_is (scene_clips ! 0) #
     map (\<lambda>i. Faded_in_overlapping (scene_clips ! (i + 1)) transition_duration)
       [0 ..< length scene_clips - 1]"

definition assemble_video :: "config \<Rightarrow> scene list \<Rightarrow> path \<Rightarrow> world \<Rightarrow> world" where
  "assemble_video cfg shot_list output_file w =
     (let scene_clips = map snd (scene_clips_loop w (sort_key scene_number shot_list) [])
      in if scene_clips = [] then w
         else
           (let final_clips_with_transitions =
                  with_transitions (TRANSITION_DURATION cfg) scene_clips;
                final_audio =
                  (if exists_path w (MUSIC_FILE cfg)
                   then Some (MUSIC_FILE cfg, MUSIC_VOLUME cfg) else None)
            in write_file output_file
                 (Encoded \<lparr>timeline = final_clips_with_transitions, music = final_audio\<rparr>) w))"

text \<open>The composites of a written video, in the order of its timeline.\<close>

fun placed_composite :: "placed_clip \<Rightarrow> composite" where
  "placed_composite (As_is c) = c"
| "placed_composite (Faded_in_overlapping c d) = c"

section \<open>Notions the properties are stated with\<close>

text \<open>
  A scene is assembled when its audio file exists and one of its two visual files does
  (lines 165 to 173); the same test on the scene number alone.
\<close>

definition number_has_assets :: "world \<Rightarrow> int \<Rightarrow> bool" where
  "number_has_assets w scene_num =
     (exists_path w (audio_path_of scene_num) \<and>
      (exists_path w (video_path_of scene_num) \<or> exists_path w (image_path_of scene_num)))"

definition has_assets :: "world \<Rightarrow> scene \<Rightarrow> bool" where
  "has_assets w scene = number_has_assets w (scene_number scene)"

text \<open>The clip the loop builds for a scene that has its assets (lines 166 to 182).\<close>

definition scene_composite :: "world \<Rightarrow> scene \<Rightarrow> composite" where
  "scene_composite w scene =
     \<lparr>visual =
        (if exists_path w (video_path_of (scene_number scene))
         then VideoFileClip (video_path_of (scene_number scene))
         else create_animated_image_clip (image_path_of (scene_number scene))
                (Duration_of_audio (audio_path_of (scene_number scene)))),
      audio = audio_path_of (scene_number scene),
      caption = narration_text scene\<rparr>"

text \<open>The scenes the loop made a clip for, in the order of \<open>scene_clips\<close>.\<close>

definition assembled_scenes :: "world \<Rightarrow> scene list \<Rightarrow> scene list" where
  "assembled_scenes w shot_list =
     map fst (scene_clips_loop w (sort_key scene_number shot_list) [])"

text \<open>The clips of the video written at a path, in timeline order; none if there is no video.\<close>

definition video_composites :: "world \<Rightarrow> path \<Rightarrow> composite list" where
  "video_composites w p =
     (case fs w p of
        Some (Encoded m) \<Rightarrow> map placed_composite (timeline m)
      | _ \<Rightarrow> [])"

subsection \<open>When the clips of a timeline play\<close>

text \<open>
  The video library keeps a start and an end with every clip. A clip that was never moved
  starts at 0 and ends at its duration; \<^verbatim>\<open>set_start(t)\<close> makes it start at \<open>t\<close> and end
  at \<open>t\<close> plus its duration; fading in changes neither. A scene clip has the duration of
  its audio (line 175), which the library reads from the audio file: \<open>audio_seconds\<close>
  gives it for every audio path. \<open>play_times\<close> follows lines 186 to 189 along the
  timeline and yields the start and the end of every clip; \<open>last_end\<close> is
  \<^verbatim>\<open>final_clips_with_transitions[-1].end\<close>.
\<close>

fun play_times :: "(path \<Rightarrow> rat) \<Rightarrow> rat \<Rightarrow> placed_clip list \<Rightarrow> (rat \<times> rat) list" where
  "play_times audio_seconds last_end [] = []"
| "play_times audio_seconds last_end (As_is c # rest) =
     (0, audio_seconds (audio c)) # play_times audio_seconds (audio_seconds (audio c)) rest"
| "play_times audio_seconds last_end (Faded_in_overlapping c transition_duration # rest) =
     (let start = last_end - transition_duration;
          end_time = start + audio_seconds (audio c)
      in (start, end_time) # play_times audio_seconds end_time rest)"

definition video_timeline :: "world \<Rightarrow> path \<Rightarrow> placed_clip list" where
  "video_timeline w p = (case fs w p of Some (Encoded m) \<Rightarrow> timeline m | _ \<Rightarrow> [])"

text \<open>The start times of the clips of the video written at a path, in timeline order.\<close>

definition video_start_times :: "(path \<Rightarrow> rat) \<Rightarrow> world \<Rightarrow> path \<Rightarrow> rat list" where
  "video_start_times audio_seconds w p =
     map fst (play_times audio_seconds 0 (video_timeline w p))"

text \<open>What \<open>n\<close> rounds of the polling loop add to the trace: a sleep of 20 seconds, then the poll.\<close>

definition polls :: "request \<Rightarrow> nat \<Rightarrow> event list" where
  "polls req n = concat (replicate n [Sleep 20, Call req])"

definition after_polls :: "request \<Rightarrow> nat \<Rightarrow> world \<Rightarrow> world" where
  "after_polls req n w = w\<lparr>trace := trace w @ polls req n\<rparr>"

subsection \<open>The specification's choice of a stock-video file\<close>

text \<open>
  The specification says the stock-video fetcher "downloads its highest-available-quality
  file". The following definitions follow those words, for comparison with \<open>first_link\<close>:
  the quality of a file variant is read as its frame area, and the link is the one of the
  variant of the first result with the largest area.
\<close>

fun frame_area :: "json \<Rightarrow> int" where
  "frame_area (JObj kvs) =
     (case (map_of kvs ''width'', map_of kvs ''height'') of
        (Some (JNum w), Some (JNum h)) \<Rightarrow> w * h
      | _ \<Rightarrow> 0)"
| "frame_area _ = 0"

fun spec_highest_quality :: "json list \<Rightarrow> json option" where
  "spec_highest_quality [] = None"
| "spec_highest_quality (f # rest) =
     (case spec_highest_quality rest of
        None \<Rightarrow> Some f
      | Some g \<Rightarrow> if frame_area f < frame_area g then Some g else Some f)"

definition spec_highest_quality_link :: "json \<Rightarrow> exn + json" where
  "spec_highest_quality_link results =
     (case subscript_key results ''videos'' of Inl e \<Rightarrow> Inl e | Inr videos \<Rightarrow>
     (case subscript_0 videos of Inl e \<Rightarrow> Inl e | Inr video \<Rightarrow>
     (case subscript_key video ''video_files'' of
        Inr (JArr video_files) \<Rightarrow>
          (case spec_highest_quality video_files of
             None \<Rightarrow> Inl IndexError
           | Some video_file \<Rightarrow> subscript_key video_file ''link'')
      | Inr _ \<Rightarrow> Inl TypeError
      | Inl e \<Rightarrow> Inl e)))"

section \<open>Example inputs\<close>

definition example_scene :: "int \<Rightarrow> string option \<Rightarrow> scene" where
  "example_scene n vt =
     \<lparr>scene_number = n, narration_text = ''Narration'', visual_prompt = ''a prompt'',
      visual_type = vt\<rparr>"

definition example_record :: "int \<Rightarrow> json" where
  "example_record n =
     JObj [(''scene_number'', JNum n), (''narration_text'', JStr ''Narration''),
           (''visual_prompt'', JStr ''a prompt''), (''visual_type'', JStr ''image'')]"

definition example_credentials :: credentials where
  "example_credentials =
     \<lparr>stability_key = ''sk'', elevenlabs_key = ''ek'', pexels_key = ''pk'', voice_id = ''voice''\<rparr>"

definition example_config :: config where
  "example_config =
     \<lparr>TRANSITION_DURATION = 1, MUSIC_FILE = ''music.mp3'', MUSIC_VOLUME = 1 / 8\<rparr>"

definition shots_3_1_2 :: "scene list" where
  "shots_3_1_2 =
     [example_scene 3 (Some ''image''), example_scene 1 (Some ''video''),
      example_scene 2 (Some ''image'')]"

definition shots_1_2_3 :: "scene list" where
  "shots_1_2_3 =
     [example_scene 1 (Some ''video''), example_scene 2 (Some ''image''),
      example_scene 3 (Some ''image'')]"

text \<open>A disk holding the given files, and an empty trace.\<close>

definition disk :: "(path \<times> file_data) list \<Rightarrow> world" where
  "disk files = \<lparr>fs = map_of files, trace = []\<rparr>"

text \<open>All three assets of scene 1.\<close>

definition stocked_disk :: world where
  "stocked_disk =
     disk [(''audio_clips/scene_1.mp3'', Blob ''speech 1''),
           (''visual_assets/scene_1.png'', Blob ''image 1''),
           (''visual_assets/scene_1.mp4'', Blob ''video 1'')]"

text \<open>Complete assets for scenes 1, 2 and 3.\<close>

definition disk_all :: world where
  "disk_all =
     disk [(''audio_clips/scene_1.mp3'', Blob ''speech 1''),
           (''visual_assets/scene_1.mp4'', Blob ''video 1''),
           (''audio_clips/scene_2.mp3'', Blob ''speech 2''),
           (''visual_assets/scene_2.png'', Blob ''image 2''),
           (''audio_clips/scene_3.mp3'', Blob ''speech 3''),
           (''visual_assets/scene_3.png'', Blob ''image 3'')]"

text \<open>Scene 2 has its image and no audio; scenes 1 and 3 are complete.\<close>

definition disk_1_3 :: world where
  "disk_1_3 =
     disk [(''audio_clips/scene_1.mp3'', Blob ''speech 1''),
           (''visual_assets/scene_1.mp4'', Blob ''video 1''),
           (''visual_assets/scene_2.png'', Blob ''image 2''),
           (''audio_clips/scene_3.mp3'', Blob ''speech 3''),
           (''visual_assets/scene_3.png'', Blob ''image 3'')]"

text \<open>Scene 2 has its audio and no visual; scenes 1 and 3 are complete.\<close>

definition disk_audio_only_2 :: world where
  "disk_audio_only_2 =
     disk [(''audio_clips/scene_1.mp3'', Blob ''speech 1''),
           (''visual_assets/scene_1.mp4'', Blob ''video 1''),
           (''audio_clips/scene_2.mp3'', Blob ''speech 2''),
           (''audio_clips/scene_3.mp3'', Blob ''speech 3''),
           (''visual_assets/scene_3.png'', Blob ''image 3'')]"

text \<open>Scene 1 has audio only, scenes 2 and 3 a visual only.\<close>

definition disk_nothing_complete :: world where
  "disk_nothing_complete =
     disk [(''audio_clips/scene_1.mp3'', Blob ''speech 1''),
           (''visual_assets/scene_2.png'', Blob ''image 2''),
           (''visual_assets/scene_3.mp4'', Blob ''video 3'')]"

text \<open>
  Audio durations: the narration of scene 2 lasts half a second, every other one five
  seconds.
\<close>

definition half_second_scene_2 :: "path \<Rightarrow> rat" where
  "half_second_scene_2 p = (if p = ''audio_clips/scene_2.mp3'' then 1 / 2 else 5)"

text \<open>Services that are down: every call raises.\<close>

definition offline :: remote where
  "offline =
     \<lparr>speech = (\<lambda>h r. Inl (ApiError ''offline'')),
      http = (\<lambda>h r. Inl (RequestException ''offline''))\<rparr>"

text \<open>
  A video-generation service: it accepts every job as \<open>job-1\<close>; the first \<open>busy\<close> polls of
  a job answer with \<open>busy_status\<close>, the later ones with \<open>final_status\<close> and the video bytes.
\<close>

definition video_service :: "nat \<Rightarrow> nat \<Rightarrow> nat \<Rightarrow> remote" where
  "video_service busy busy_status final_status =
     \<lparr>speech = (\<lambda>h r. Inl (ApiError ''no speech here'')),
      http = (\<lambda>h r.
        case r of
          GenerateVideo k p \<Rightarrow>
            Inr \<lparr>status_code = 200, content = [],
                 body_json = Some (JObj [(''id'', JStr ''job-1'')])\<rparr>
        | VideoResult k g \<Rightarrow>
            if length (filter (\<lambda>e. e = Call r) h) < busy
            then Inr \<lparr>status_code = busy_status, content = [], body_json = None\<rparr>
            else Inr \<lparr>status_code = final_status, content = ''MP4 bytes'', body_json = None\<rparr>
        | _ \<Rightarrow> Inl (RequestException ''unknown endpoint''))\<rparr>"

text \<open>
  A stock-footage service: every search answers with the given results, and every link
  downloads as bytes that name the link.
\<close>

definition stock_service :: "json \<Rightarrow> remote" where
  "stock_service results =
     \<lparr>speech = (\<lambda>h r. Inl (ApiError ''no speech here'')),
      http = (\<lambda>h r.
        case r of
          SearchVideos k query orientation per_page \<Rightarrow>
            Inr \<lparr>status_code = 200, content = [], body_json = Some results\<rparr>
        | GetUrl (JStr link) \<Rightarrow>
            Inr \<lparr>status_code = 200, content = ''bytes of '' @ link, body_json = None\<rparr>
        | _ \<Rightarrow> Inl (RequestException ''unknown endpoint''))\<rparr>"

definition variant :: "string \<Rightarrow> int \<Rightarrow> int \<Rightarrow> string \<Rightarrow> json" where
  "variant quality width height link =
     JObj [(''quality'', JStr quality), (''width'', JNum width), (''height'', JNum height),
           (''link'', JStr link)]"

text \<open>One search result whose file variants list the small one before the large one.\<close>

definition sd_before_hd :: "(string \<times> json) list" where
  "sd_before_hd =
     [(''videos'',
       JArr [JObj [(''id'', JNum 7),
                   (''video_files'',
                    JArr [variant ''sd'' 640 360 ''https://cdn/sd.mp4'',
                          variant ''hd'' 1920 1080 ''https://cdn/hd.mp4''])]])]"

section \<open>Files are only ever added\<close>

lemma exists_write_file: "exists_path w p \<Longrightarrow> exists_path (write_file q f w) p"
  by (simp add: exists_path_def write_file_def)

lemma exists_log_event: "exists_path (log_event e w) p = exists_path w p"
  by (simp add: exists_path_def log_event_def)

lemma trace_log_event: "trace (log_event e w) = trace w @ [e]"
  by (simp add: log_event_def)

lemma except_print_None: "except_print msg n (None, w) = w"
  by (simp add: except_print_def)

lemma exists_except_print:
  "exists_path (snd r) p \<Longrightarrow> exists_path (except_print msg n r) p"
  by (cases r) (auto simp: except_print_def exists_log_event split: option.splits)

lemma exists_generate_audio:
  "exists_path w p \<Longrightarrow> exists_path (generate_audio R s k v w) p"
  unfolding generate_audio_def Let_def
  by (auto intro!: exists_except_print
      simp: generate_audio_try_def Let_def exists_log_event exists_write_file
      split: sum.splits prod.splits)

lemma exists_generate_image:
  "exists_path w p \<Longrightarrow> exists_path (generate_image R s k w) p"
  unfolding generate_image_def Let_def
  by (auto intro!: exists_except_print
      simp: generate_image_try_def Let_def exists_log_event exists_write_file
      split: sum.splits option.splits)

lemma exists_download_link:
  "exists_path w p \<Longrightarrow> exists_path (snd (download_link R u q w)) p"
  by (auto simp: download_link_def Let_def exists_log_event exists_write_file
      split: sum.splits option.splits)

lemma exists_download_stock_video:
  "exists_path w p \<Longrightarrow> exists_path (download_stock_video R s k w) p"
  unfolding download_stock_video_def Let_def
  by (auto intro!: exists_except_print
      simp: download_stock_video_try_def Let_def exists_log_event exists_download_link
      split: sum.splits option.splits)

text \<open>
  For the polling loop the fact is proved by the induction rule of the partial function:
  it holds of every result the loop returns.
\<close>

lemma exists_poll_video_result:
  assumes "poll_video_result R k g q w = Some y"
  shows "exists_path w p \<longrightarrow> exists_path (snd y) p"
proof (rule poll_video_result.raw_induct
    [where P = "\<lambda>R k g q w y. exists_path w p \<longrightarrow> exists_path (snd y) p", OF _ assms])
  fix poll :: "remote \<Rightarrow> string \<Rightarrow> json \<Rightarrow> path \<Rightarrow> world \<Rightarrow> (exn option \<times> world) option"
    and R' k' g' q' w' y'
  assume IH: "\<And>R k g q w y. poll R k g q w = Some y \<Longrightarrow>
        exists_path w p \<longrightarrow> exists_path (snd y) p"
    and body: "(let w1 = log_event (Sleep 20) w';
          req = VideoResult k' g'; w2 = log_event (Call req) w1
      in case http R' (trace w1) req of
           Inl e \<Rightarrow> Some (Some e, w2)
         | Inr result_response \<Rightarrow>
             if status_code result_response = 200
             then Some (None, write_file q' (Blob (content result_response)) w2)
             else if status_code result_response \<noteq> 202
             then (case raise_for_status result_response of
                     Some e \<Rightarrow> Some (Some e, w2)
                   | None \<Rightarrow> poll R' k' g' q' w2)
             else poll R' k' g' q' w2) = Some y'"
  show "exists_path w' p \<longrightarrow> exists_path (snd y') p"
  proof
    assume ex: "exists_path w' p"
    from body ex show "exists_path (snd y') p"
      by (auto simp: Let_def exists_log_event exists_write_file
          dest!: IH split: sum.splits if_splits option.splits)
  qed
qed

lemma exists_generate_video:
  "generate_video R s k w = Some w' \<Longrightarrow> exists_path w p \<Longrightarrow> exists_path w' p"
  unfolding generate_video_def Let_def
  by (auto intro!: exists_except_print
      simp: generate_video_try_def Let_def exists_log_event
      dest!: exists_poll_video_result [where p = p]
      split: sum.splits option.splits if_splits)

lemma exists_run_task:
  "run_task R t w = Some w' \<Longrightarrow> exists_path w p \<Longrightarrow> exists_path w' p"
  by (cases t)
    (auto simp: exists_generate_audio exists_generate_image exists_download_stock_video
      dest: exists_generate_video)

lemma run_task_existing:
  "exists_path w (target_file t) \<Longrightarrow> run_task R t w = Some w"
  by (cases t)
    (simp_all add: generate_audio_def generate_image_def download_stock_video_def
      generate_video_def)

text \<open>
  Tasks whose file was there at the start contribute nothing, wherever they stand in
  the list: the state generalised over is any later state of the run.
\<close>

lemma run_tasks_skip:
  "\<forall>p. exists_path w0 p \<longrightarrow> exists_path w p \<Longrightarrow>
   run_tasks R ts w = run_tasks R (filter (\<lambda>t. \<not> exists_path w0 (target_file t)) ts) w"
proof (induction ts arbitrary: w)
  case Nil
  then show ?case by simp
next
  case (Cons t ts)
  show ?case
  proof (cases "exists_path w0 (target_file t)")
    case True
    with Cons.prems have "run_task R t w = Some w"
      by (simp add: run_task_existing)
    with True Cons show ?thesis by simp
  next
    case False
    show ?thesis
    proof (cases "run_task R t w")
      case None
      with False show ?thesis by simp
    next
      case (Some w')
      with Cons.prems have "\<forall>p. exists_path w0 p \<longrightarrow> exists_path w' p"
        by (blast intro: exists_run_task)
      with Cons.IH Some False show ?thesis by simp
    qed
  qed
qed

section \<open>The assembler's loop as a filter\<close>

lemma has_assets_paths:
  "has_assets w scene =
     (exists_path w (audio_path_of (scene_number scene)) \<and>
      (exists_path w (video_path_of (scene_number scene)) \<or>
       exists_path w (image_path_of (scene_number scene))))"
  by (simp add: has_assets_def number_has_assets_def)

lemma scene_clips_loop_filter:
  "scene_clips_loop w scenes acc =
     acc @ map (\<lambda>s. (s, scene_composite w s)) (filter (has_assets w) scenes)"
  by (induction scenes arbitrary: acc)
    (auto simp: Let_def has_assets_paths scene_composite_def)

lemma assembled_scenes_filter:
  "assembled_scenes w shot_list = filter (has_assets w) (sort_key scene_number shot_list)"
  by (simp add: assembled_scenes_def scene_clips_loop_filter comp_def)

text \<open>The index loop of lines 187 to 189 keeps every clip, in order.\<close>

lemma with_transitions_composites:
  "cs \<noteq> [] \<Longrightarrow> map placed_composite (with_transitions d cs) = cs"
proof -
  assume ne: "cs \<noteq> []"
  have "map (\<lambda>i. cs ! (i + 1)) [0 ..< length cs - 1] = tl cs"
    by (rule nth_equalityI) (auto simp: nth_tl)
  with ne show ?thesis
    by (cases cs) (simp_all add: with_transitions_def comp_def)
qed

lemma sorted_filter_sort_key:
  "sorted (map scene_number (filter P (sort_key scene_number xs)))"
proof -
  have "sorted (map scene_number (sort_key scene_number xs))" by simp
  then show ?thesis by (simp add: sorted_filter)
qed

lemma assemble_video_via_assembled:
  "assemble_video cfg shot_list out w =
     (if assembled_scenes w shot_list = [] then w
      else write_file out
         (Encoded \<lparr>timeline = with_transitions (TRANSITION_DURATION cfg)
                      (map (scene_composite w) (assembled_scenes w shot_list)),
                   music = (if exists_path w (MUSIC_FILE cfg)
                            then Some (MUSIC_FILE cfg, MUSIC_VOLUME cfg) else None)\<rparr>) w)"
  unfolding assemble_video_def assembled_scenes_def Let_def
  by (simp add: scene_clips_loop_filter comp_def)

lemma assemble_video_composites:
  "assembled_scenes w shot_list \<noteq> [] \<Longrightarrow>
   video_composites (assemble_video cfg shot_list out w) out =
     map (scene_composite w) (assembled_scenes w shot_list)"
  by (simp add: assemble_video_via_assembled video_composites_def write_file_def
      with_transitions_composites)

lemma assemble_video_noop:
  "assembled_scenes w shot_list = [] \<Longrightarrow> assemble_video cfg shot_list out w = w"
  by (simp add: assemble_video_via_assembled)

lemma assembled_scenes_removeAll:
  "\<not> has_assets w scene \<Longrightarrow>
   assembled_scenes w (removeAll scene shot_list) = assembled_scenes w shot_list"
proof -
  assume no: "\<not> has_assets w scene"
  have "assembled_scenes w (removeAll scene shot_list) =
      filter (has_assets w) (filter (\<lambda>s. scene \<noteq> s) (sort_key scene_number shot_list))"
    by (simp add: assembled_scenes_filter removeAll_filter_not_eq filter_sort)
  also have "\<dots> = filter (\<lambda>s. scene \<noteq> s \<and> has_assets w s) (sort_key scene_number shot_list)"
    by simp
  also have "(\<lambda>s. scene \<noteq> s \<and> has_assets w s) = has_assets w"
    using no by auto
  finally show ?thesis by (simp add: assembled_scenes_filter)
qed

lemma assemble_video_removeAll:
  "\<not> has_assets w scene \<Longrightarrow>
   assemble_video cfg (removeAll scene shot_list) out w = assemble_video cfg shot_list out w"
  by (simp add: assemble_video_via_assembled assembled_scenes_removeAll)

text \<open>The numbers of the assembled scenes depend on the shot list as a multiset only.\<close>

lemma assembled_numbers:
  "map scene_number (assembled_scenes w shot_list) =
     filter (number_has_assets w) (sort (map scene_number shot_list))"
proof -
  have "has_assets w = number_has_assets w \<circ> scene_number"
    by (auto simp: has_assets_def)
  then have "map scene_number (assembled_scenes w shot_list) =
      filter (number_has_assets w) (map scene_number (sort_key scene_number shot_list))"
    by (simp add: assembled_scenes_filter filter_map)
  moreover have "sort (map scene_number shot_list) =
      map scene_number (sort_key scene_number shot_list)"
    by (rule properties_for_sort) simp_all
  ultimately show ?thesis by simp
qed

lemma assembled_numbers_shuffled:
  assumes "mset shuffled = mset shot_list"
  shows "map scene_number (assembled_scenes w shuffled) =
         map scene_number (assembled_scenes w shot_list)"
proof -
  from assms have "mset (map scene_number shuffled) = mset (map scene_number shot_list)"
    by simp
  then have "sort (map scene_number shuffled) = sort (map scene_number shot_list)"
    by (intro properties_for_sort) simp_all
  then show ?thesis by (simp add: assembled_numbers)
qed

section \<open>When the clips play\<close>

lemma with_transitions_hd_tl:
  "cs \<noteq> [] \<Longrightarrow>
   with_transitions d cs = As_is (hd cs) # map (\<lambda>c. Faded_in_overlapping c d) (tl cs)"
proof -
  assume ne: "cs \<noteq> []"
  have "map (\<lambda>i. Faded_in_overlapping (cs ! (i + 1)) d) [0 ..< length cs - 1] =
      map (\<lambda>c. Faded_in_overlapping c d) (tl cs)"
    by (rule nth_equalityI) (auto simp: nth_tl)
  with ne show ?thesis
    by (cases cs) (simp_all add: with_transitions_def)
qed

text \<open>
  Clips that all last at least as long as the transition start one after the other: every
  start is at or after the one before.
\<close>

lemma faded_starts_ascend:
  "\<forall>c \<in> set cs. d \<le> dur (audio c) \<Longrightarrow>
   sorted (map fst (play_times dur e (map (\<lambda>c. Faded_in_overlapping c d) cs))) \<and>
   (\<forall>s \<in> set (map fst (play_times dur e (map (\<lambda>c. Faded_in_overlapping c d) cs))). e - d \<le> s)"
proof (induction cs arbitrary: e)
  case Nil
  then show ?case by simp
next
  case (Cons c cs)
  let ?e' = "e - d + dur (audio c)"
  from Cons.prems have long: "d \<le> dur (audio c)" and rest: "\<forall>c \<in> set cs. d \<le> dur (audio c)"
    by simp_all
  from Cons.IH [OF rest, of ?e'] have
    sorted_rest: "sorted (map fst (play_times dur ?e' (map (\<lambda>c. Faded_in_overlapping c d) cs)))"
    and bound: "\<forall>s \<in> set (map fst (play_times dur ?e' (map (\<lambda>c. Faded_in_overlapping c d) cs))).
        ?e' - d \<le> s"
    by blast+
  from long have "e - d \<le> ?e' - d" by simp
  with bound have "\<forall>s \<in> set (map fst (play_times dur ?e' (map (\<lambda>c. Faded_in_overlapping c d) cs))).
      e - d \<le> s"
    by (meson order_trans)
  with sorted_rest show ?case by (simp add: Let_def)
qed

lemma start_times_ascend_when_long_enough:
  assumes "cs \<noteq> []" and "\<forall>c \<in> set cs. d \<le> dur (audio c)"
  shows "sorted (map fst (play_times dur 0 (with_transitions d cs)))"
proof -
  from assms obtain c rest where cs: "cs = c # rest" by (cases cs) auto
  with assms have long: "d \<le> dur (audio c)" and rest: "\<forall>c \<in> set rest. d \<le> dur (audio c)"
    by simp_all
  from faded_starts_ascend [OF rest, of "dur (audio c)"] have
    "sorted (map fst (play_times dur (dur (audio c)) (map (\<lambda>c. Faded_in_overlapping c d) rest)))"
    and "\<forall>s \<in> set (map fst (play_times dur (dur (audio c))
          (map (\<lambda>c. Faded_in_overlapping c d) rest))). dur (audio c) - d \<le> s"
    by blast+
  with long have "sorted (0 # map fst (play_times dur (dur (audio c))
      (map (\<lambda>c. Faded_in_overlapping c d) rest)))"
    by (auto intro: order_trans [of 0 "dur (audio c) - d"])
  with cs show ?thesis by (simp add: with_transitions_hd_tl)
qed

section \<open>The polling loop, round by round\<close>

lemma polls_snoc: "polls req (Suc n) = polls req n @ [Sleep 20, Call req]"
  by (induction n) (simp_all add: polls_def)

lemma after_polls_0: "after_polls req 0 w = w"
  by (simp add: after_polls_def polls_def)

lemma after_polls_one:
  "after_polls req (Suc 0) w = log_event (Call req) (log_event (Sleep 20) w)"
  by (simp add: after_polls_def polls_def log_event_def)

lemma after_polls_after_one:
  "after_polls req n (after_polls req (Suc 0) w) = after_polls req (Suc n) w"
  by (simp add: after_polls_def polls_def)

lemma after_one_after_polls:
  "after_polls req (Suc 0) (after_polls req n w) = after_polls req (Suc n) w"
  by (simp add: after_polls_def polls_snoc) (simp add: polls_def)

lemma poll_again:
  assumes "http R (trace w @ [Sleep 20]) (VideoResult k g) = Inr r" and "status_code r = 202"
  shows "poll_video_result R k g q w =
    poll_video_result R k g q (after_polls (VideoResult k g) (Suc 0) w)"
  using assms
  by (subst poll_video_result.simps)
     (simp add: Let_def after_polls_one trace_log_event)

lemma poll_ready:
  assumes "http R (trace w @ [Sleep 20]) (VideoResult k g) = Inr r" and "status_code r = 200"
  shows "poll_video_result R k g q w =
     Some (None, write_file q (Blob (content r)) (after_polls (VideoResult k g) (Suc 0) w))"
  using assms
  by (subst poll_video_result.simps)
     (simp add: Let_def after_polls_one trace_log_event)

lemma poll_failed:
  assumes "http R (trace w @ [Sleep 20]) (VideoResult k g) = Inr r"
    and "400 \<le> status_code r" and "status_code r < 600"
  shows "poll_video_result R k g q w =
     Some (Some (HTTPError (status_code r)), after_polls (VideoResult k g) (Suc 0) w)"
  using assms
  by (subst poll_video_result.simps)
     (simp add: Let_def after_polls_one trace_log_event raise_for_status_def)

text \<open>
  Every status that is neither 200 nor one of 400 to 599 sends the loop round again: 202
  by the \<^verbatim>\<open>elif\<close> of line 136, every other one because \<^verbatim>\<open>raise_for_status\<close> returns.
\<close>

lemma poll_other_status:
  assumes "http R (trace w @ [Sleep 20]) (VideoResult k g) = Inr r"
    and "status_code r \<noteq> 200" and "\<not> (400 \<le> status_code r \<and> status_code r < 600)"
  shows "poll_video_result R k g q w =
    poll_video_result R k g q (after_polls (VideoResult k g) (Suc 0) w)"
  using assms
  by (subst poll_video_result.simps)
     (auto simp: Let_def after_polls_one trace_log_event raise_for_status_def)

text \<open>After \<open>n\<close> answers of 202 the loop stands where it started, \<open>n\<close> rounds later.\<close>

lemma poll_after_processing:
  assumes "\<forall>i<n. \<exists>r.
      http R (trace w @ polls (VideoResult k g) i @ [Sleep 20]) (VideoResult k g) = Inr r
      \<and> status_code r = 202"
  shows "poll_video_result R k g q w =
         poll_video_result R k g q (after_polls (VideoResult k g) n w)"
  using assms
proof (induction n arbitrary: w)
  case 0
  then show ?case by (simp add: after_polls_0)
next
  case (Suc n)
  let ?req = "VideoResult k g"
  let ?w1 = "after_polls ?req (Suc 0) w"
  from Suc.prems have "\<exists>r. http R (trace w @ polls ?req 0 @ [Sleep 20]) ?req = Inr r
      \<and> status_code r = 202"
    by blast
  then obtain r where "http R (trace w @ [Sleep 20]) ?req = Inr r" "status_code r = 202"
    by (auto simp: polls_def)
  then have step: "poll_video_result R k g q w = poll_video_result R k g q ?w1"
    by (rule poll_again)
  have "\<forall>i<n. \<exists>r. http R (trace ?w1 @ polls ?req i @ [Sleep 20]) ?req = Inr r
      \<and> status_code r = 202"
  proof (intro allI impI)
    fix i assume "i < n"
    then have "Suc i < Suc n" by simp
    with Suc.prems have "\<exists>r. http R (trace w @ polls ?req (Suc i) @ [Sleep 20]) ?req = Inr r
      \<and> status_code r = 202" by blast
    then show "\<exists>r. http R (trace ?w1 @ polls ?req i @ [Sleep 20]) ?req = Inr r
      \<and> status_code r = 202"
      by (simp add: after_polls_def polls_def)
  qed
  then have "poll_video_result R k g q ?w1 =
         poll_video_result R k g q (after_polls ?req n ?w1)"
    by (rule Suc.IH)
  with step show ?case by (simp only: after_polls_after_one)
qed

text \<open>A service that answers 202 to every poll keeps the loop from ever returning.\<close>

lemma poll_never_returns:
  assumes always: "\<forall>h. \<exists>r. http R h (VideoResult k g) = Inr r \<and> status_code r = 202"
  shows "poll_video_result R k g q w = None"
proof (rule ccontr)
  assume "poll_video_result R k g q w \<noteq> None"
  then obtain y where some: "poll_video_result R k g q w = Some y" by auto
  have "(\<forall>h. \<exists>r. http R h (VideoResult k g) = Inr r \<and> status_code r = 202) \<longrightarrow> False"
  proof (rule poll_video_result.raw_induct
    [where P = "\<lambda>R k g q w y.
        (\<forall>h. \<exists>r. http R h (VideoResult k g) = Inr r \<and> status_code r = 202) \<longrightarrow> False",
      OF _ some])
    fix poll :: "remote \<Rightarrow> string \<Rightarrow> json \<Rightarrow> path \<Rightarrow> world \<Rightarrow> (exn option \<times> world) option"
      and R' k' g' q' w' y'
    assume IH: "\<And>R k g q w y. poll R k g q w = Some y \<Longrightarrow>
          (\<forall>h. \<exists>r. http R h (VideoResult k g) = Inr r \<and> status_code r = 202) \<longrightarrow> False"
      and body: "(let w1 = log_event (Sleep 20) w';
          req = VideoResult k' g'; w2 = log_event (Call req) w1
      in case http R' (trace w1) req of
           Inl e \<Rightarrow> Some (Some e, w2)
         | Inr result_response \<Rightarrow>
             if status_code result_response = 200
             then Some (None, write_file q' (Blob (content result_response)) w2)
             else if status_code result_response \<noteq> 202
             then (case raise_for_status result_response of
                     Some e \<Rightarrow> Some (Some e, w2)
                   | None \<Rightarrow> poll R' k' g' q' w2)
             else poll R' k' g' q' w2) = Some y'"
    show "(\<forall>h. \<exists>r. http R' h (VideoResult k' g') = Inr r \<and> status_code r = 202) \<longrightarrow> False"
    proof
      assume a: "\<forall>h. \<exists>r. http R' h (VideoResult k' g') = Inr r \<and> status_code r = 202"
      then obtain r where
        "http R' (trace (log_event (Sleep 20) w')) (VideoResult k' g') = Inr r"
        "status_code r = 202" by blast
      with body have "poll R' k' g' q'
          (log_event (Call (VideoResult k' g')) (log_event (Sleep 20) w')) = Some y'"
        by (simp add: Let_def)
      from IH [OF this] a show False by blast
    qed
  qed
  with always show False by blast
qed

section \<open>Facts about the example inputs\<close>

lemma paths_1 [simp]:
  "audio_path_of 1 = ''audio_clips/scene_1.mp3''"
  "image_path_of 1 = ''visual_assets/scene_1.png''"
  "video_path_of 1 = ''visual_assets/scene_1.mp4''"
  by (simp_all add: audio_path_of_def image_path_of_def video_path_of_def str_int_def
      str_nat.simps)

lemma paths_2 [simp]:
  "audio_path_of 2 = ''audio_clips/scene_2.mp3''"
  "image_path_of 2 = ''visual_assets/scene_2.png''"
  "video_path_of 2 = ''visual_assets/scene_2.mp4''"
  by (simp_all add: audio_path_of_def image_path_of_def video_path_of_def str_int_def
      str_nat.simps)

lemma paths_3 [simp]:
  "audio_path_of 3 = ''audio_clips/scene_3.mp3''"
  "image_path_of 3 = ''visual_assets/scene_3.png''"
  "video_path_of 3 = ''visual_assets/scene_3.mp4''"
  by (simp_all add: audio_path_of_def image_path_of_def video_path_of_def str_int_def
      str_nat.simps)

lemma assembled_disk_all:
  "assembled_scenes disk_all shots_3_1_2 =
     [example_scene 1 (Some ''video''), example_scene 2 (Some ''image''),
      example_scene 3 (Some ''image'')]"
  by (simp add: assembled_scenes_filter shots_3_1_2_def example_scene_def has_assets_paths
      exists_path_def disk_all_def disk_def)

lemma assembled_disk_1_3:
  "assembled_scenes disk_1_3 shots_1_2_3 =
     [example_scene 1 (Some ''video''), example_scene 3 (Some ''image'')]"
  by (simp add: assembled_scenes_filter shots_1_2_3_def example_scene_def has_assets_paths
      exists_path_def disk_1_3_def disk_def)

lemma assembled_disk_audio_only_2:
  "assembled_scenes disk_audio_only_2 shots_1_2_3 =
     [example_scene 1 (Some ''video''), example_scene 3 (Some ''image'')]"
  by (simp add: assembled_scenes_filter shots_1_2_3_def example_scene_def has_assets_paths
      exists_path_def disk_audio_only_2_def disk_def)

lemma processing_twice:
  "\<forall>i<Suc (Suc 0). \<exists>r.
      http (video_service (Suc (Suc 0)) 202 final)
        (trace (disk []) @ polls (VideoResult ''sk'' (JStr ''job-1'')) i @ [Sleep 20])
        (VideoResult ''sk'' (JStr ''job-1'')) = Inr r \<and> status_code r = 202"
  by (simp add: less_Suc_eq polls_def video_service_def disk_def)

lemma third_answer:
  "http (video_service (Suc (Suc 0)) 202 final)
     (trace (disk []) @ polls (VideoResult ''sk'' (JStr ''job-1'')) (Suc (Suc 0)) @ [Sleep 20])
     (VideoResult ''sk'' (JStr ''job-1'')) =
   Inr \<lparr>status_code = final, content = ''MP4 bytes'', body_json = None\<rparr>"
  by (simp add: polls_def video_service_def disk_def)

lemma always_processing:
  "\<forall>h. \<exists>r. http (video_service (Suc (Suc 0)) 202 202) h (VideoResult ''sk'' (JStr ''job-1'')) = Inr r
     \<and> status_code r = 202"
  by (simp add: video_service_def)

section \<open>Properties of the fetchers and the dispatcher\<close>

text \<open>
  C1. Every fetcher (audio, image, stock video, generated video) whose target file exists
  when it is invoked returns at once and leaves the state as it was: no remote call (the
  trace is unchanged) and no change to the files. Hence a run of the dispatcher over any
  shot list equals the run of only those tasks whose target file was absent when the run
  began: an asset whose file already exists is never fetched again.
\<close>

theorem fetchers_skip_existing_target:
  "(exists_path w (audio_path_of (scene_number scene)) \<longrightarrow>
      generate_audio R scene api_key voice w = w) \<and>
   (exists_path w (image_path_of (scene_number scene)) \<longrightarrow>
      generate_image R scene api_key w = w) \<and>
   (exists_path w (video_path_of (scene_number scene)) \<longrightarrow>
      download_stock_video R scene api_key w = w) \<and>
   (exists_path w (video_path_of (scene_number scene)) \<longrightarrow>
      generate_video R scene api_key w = Some w) \<and>
   run_tasks R (future_tasks cr shot_list) w =
     run_tasks R
       (filter (\<lambda>t. \<not> exists_path w (target_file t)) (future_tasks cr shot_list)) w"
proof -
  have "run_tasks R (future_tasks cr shot_list) w =
     run_tasks R
       (filter (\<lambda>t. \<not> exists_path w (target_file t)) (future_tasks cr shot_list)) w"
    by (rule run_tasks_skip) simp
  then show ?thesis
    by (simp add: generate_audio_def generate_image_def download_stock_video_def
        generate_video_def)
qed

text \<open>
  C1 at a concrete input: all three files of scene 1 are on disk, the services are down;
  each fetcher returns the disk untouched, and a dispatcher run over three shots of scene 1
  (an image, a stock and a generated-video shot) returns it untouched too.
\<close>

theorem fetchers_skip_existing_target_witness:
  "exists_path stocked_disk (audio_path_of 1) \<and>
   exists_path stocked_disk (image_path_of 1) \<and>
   exists_path stocked_disk (video_path_of 1) \<and>
   generate_audio offline (example_scene 1 None) ''sk'' ''voice'' stocked_disk = stocked_disk \<and>
   generate_image offline (example_scene 1 None) ''sk'' stocked_disk = stocked_disk \<and>
   download_stock_video offline (example_scene 1 None) ''sk'' stocked_disk = stocked_disk \<and>
   generate_video offline (example_scene 1 None) ''sk'' stocked_disk = Some stocked_disk \<and>
   run_tasks offline
     (future_tasks example_credentials
        [example_scene 1 (Some ''image''), example_scene 1 (Some ''stock_footage''),
         example_scene 1 None]) stocked_disk = Some stocked_disk"
  using fetchers_skip_existing_target
     [where w = stocked_disk and scene = "example_scene 1 None" and R = offline
      and api_key = "''sk''" and voice = "''voice''" and cr = example_credentials
      and shot_list = "[example_scene 1 (Some ''image''), example_scene 1 (Some ''stock_footage''),
         example_scene 1 None]"]
  by (simp add: stocked_disk_def disk_def exists_path_def example_scene_def scene_tasks_def)

text \<open>
  C5, as the code has it. For a scene whose video file is absent: when the search
  (restricted to landscape, one result per page) answers without an error status with a
  JSON object whose \<^verbatim>\<open>videos\<close> list is not empty, the first result's \<^verbatim>\<open>video_files\<close> list
  starts with a variant that has a \<^verbatim>\<open>link\<close>, and the download of that link answers without
  an error status, then the fetcher writes the bytes of that first listed variant of the
  first result to the deterministic video path, after exactly these two requests. When
  \<^verbatim>\<open>videos\<close> is the empty list it makes no second request, writes nothing and prints
  nothing.
\<close>

theorem stock_video_first_variant:
  "\<not> exists_path w (video_path_of (scene_number scene)) \<and>
   http R (trace w) (SearchVideos api_key (visual_prompt scene) ''landscape'' 1) = Inr response \<and>
   raise_for_status response = None \<and> body_json response = Some (JObj results) \<longrightarrow>
     (map_of results ''videos'' = Some (JArr (JObj video # more_videos)) \<and>
      map_of video ''video_files'' = Some (JArr (JObj video_file # more_files)) \<and>
      map_of video_file ''link'' = Some video_url \<and>
      http R (trace w @ [Call (SearchVideos api_key (visual_prompt scene) ''landscape'' 1)])
        (GetUrl video_url) = Inr video_response \<and>
      raise_for_status video_response = None \<longrightarrow>
        download_stock_video R scene api_key w =
          w\<lparr>fs := (fs w)(video_path_of (scene_number scene) \<mapsto> Blob (content video_response)),
            trace := trace w @
              [Call (SearchVideos api_key (visual_prompt scene) ''landscape'' 1),
               Call (GetUrl video_url)]\<rparr>) \<and>
     (map_of results ''videos'' = Some (JArr []) \<longrightarrow>
        download_stock_video R scene api_key w =
          w\<lparr>trace := trace w @
              [Call (SearchVideos api_key (visual_prompt scene) ''landscape'' 1)]\<rparr>)"
proof (intro impI conjI; elim conjE)
  let ?req = "SearchVideos api_key (visual_prompt scene) ''landscape'' 1"
  assume absent: "\<not> exists_path w (video_path_of (scene_number scene))"
    and search: "http R (trace w) ?req = Inr response"
      "raise_for_status response = None" "body_json response = Some (JObj results)"
  {
    assume found: "map_of results ''videos'' = Some (JArr (JObj video # more_videos))"
      "map_of video ''video_files'' = Some (JArr (JObj video_file # more_files))"
      "map_of video_file ''link'' = Some video_url"
      and got: "http R (trace w @ [Call ?req]) (GetUrl video_url) = Inr video_response"
      "raise_for_status video_response = None"
    from found have link: "first_link (JObj results) = Inr video_url"
      by (simp add: first_link_def)
    from got have "download_link R video_url (video_path_of (scene_number scene))
        (log_event (Call ?req) w) =
      (None, write_file (video_path_of (scene_number scene)) (Blob (content video_response))
         (log_event (Call (GetUrl video_url)) (log_event (Call ?req) w)))"
      by (simp add: download_link_def Let_def trace_log_event)
    with absent search found link
    show "download_stock_video R scene api_key w =
          w\<lparr>fs := (fs w)(video_path_of (scene_number scene) \<mapsto> Blob (content video_response)),
            trace := trace w @ [Call ?req, Call (GetUrl video_url)]\<rparr>"
      by (simp add: download_stock_video_def download_stock_video_try_def Let_def
          except_print_None write_file_def log_event_def)
  }
  {
    assume "map_of results ''videos'' = Some (JArr [])"
    with absent search
    show "download_stock_video R scene api_key w = w\<lparr>trace := trace w @ [Call ?req]\<rparr>"
      by (simp add: download_stock_video_def download_stock_video_try_def Let_def
          except_print_None log_event_def)
  }
qed

text \<open>
  C5 as stated fails: the first result lists a 640 by 360 variant before a 1920 by 1080
  one; the fetcher writes the bytes of the small one, the first listed, while the
  highest-quality variant the specification speaks of is the large one.
\<close>

theorem stock_video_not_highest_quality:
  "fs (download_stock_video (stock_service (JObj sd_before_hd))
         (example_scene 1 (Some ''stock_footage'')) ''pk'' (disk []))
      ''visual_assets/scene_1.mp4'' = Some (Blob ''bytes of https://cdn/sd.mp4'') \<and>
   first_link (JObj sd_before_hd) = Inr (JStr ''https://cdn/sd.mp4'') \<and>
   spec_highest_quality_link (JObj sd_before_hd) = Inr (JStr ''https://cdn/hd.mp4'')"
  by (simp add: download_stock_video_def download_stock_video_try_def download_link_def
      Let_def except_print_def write_file_def log_event_def exists_path_def disk_def
      stock_service_def sd_before_hd_def variant_def first_link_def
      spec_highest_quality_link_def raise_for_status_def example_scene_def)

text \<open>
  The amended C5 at concrete inputs: the two-variant result above (the file written is
  the first variant's, after the two requests), and a search with no result (one request,
  no file).
\<close>

theorem stock_video_first_variant_witness:
  "download_stock_video (stock_service (JObj sd_before_hd))
      (example_scene 1 (Some ''stock_footage'')) ''pk'' (disk []) =
     \<lparr>fs = [''visual_assets/scene_1.mp4'' \<mapsto> Blob ''bytes of https://cdn/sd.mp4''],
      trace = [Call (SearchVideos ''pk'' ''a prompt'' ''landscape'' 1),
               Call (GetUrl (JStr ''https://cdn/sd.mp4''))]\<rparr> \<and>
   download_stock_video (stock_service (JObj [(''videos'', JArr [])]))
      (example_scene 1 (Some ''stock_footage'')) ''pk'' (disk []) =
     \<lparr>fs = Map.empty, trace = [Call (SearchVideos ''pk'' ''a prompt'' ''landscape'' 1)]\<rparr>"
  using stock_video_first_variant
     [where w = "disk []" and scene = "example_scene 1 (Some ''stock_footage'')"
      and R = "stock_service (JObj sd_before_hd)" and api_key = "''pk''"
      and response = "\<lparr>status_code = 200, content = [], body_json = Some (JObj sd_before_hd)\<rparr>"
      and results = sd_before_hd
      and video = "[(''id'', JNum 7),
                   (''video_files'',
                    JArr [variant ''sd'' 640 360 ''https://cdn/sd.mp4'',
                          variant ''hd'' 1920 1080 ''https://cdn/hd.mp4''])]"
      and more_videos = "[]"
      and video_file = "[(''quality'', JStr ''sd''), (''width'', JNum 640), (''height'', JNum 360),
           (''link'', JStr ''https://cdn/sd.mp4'')]"
      and more_files = "[variant ''hd'' 1920 1080 ''https://cdn/hd.mp4'']"
      and video_url = "JStr ''https://cdn/sd.mp4''"
      and video_response = "\<lparr>status_code = 200, content = ''bytes of https://cdn/sd.mp4'',
          body_json = None\<rparr>"]
    stock_video_first_variant
     [where w = "disk []" and scene = "example_scene 1 (Some ''stock_footage'')"
      and R = "stock_service (JObj [(''videos'', JArr [])])" and api_key = "''pk''"
      and response = "\<lparr>status_code = 200, content = [],
          body_json = Some (JObj [(''videos'', JArr [])])\<rparr>"
      and results = "[(''videos'', JArr [])]"]
  by (simp add: exists_path_def disk_def stock_service_def sd_before_hd_def variant_def
      raise_for_status_def example_scene_def)

text \<open>
  The loop on the statuses the video service documents. Every poll of the loop comes
  after a sleep of 20 seconds. Let
  the first \<open>n\<close> polls be answered with status 202, for any \<open>n\<close>, and the next poll with
  \<open>response\<close>. If its status is 202 again the loop goes on polling from the state \<open>n + 1\<close>
  rounds later; if it is 200 the loop exits with the video bytes written to the target
  path; if it is a client or server error status (400 to 599, the codes
  \<^verbatim>\<open>raise_for_status\<close> raises for) the loop ends with that error and writes nothing. There
  is no bound on \<open>n\<close>, and a service that answers 202 to every poll keeps the loop from
  ever returning.
\<close>

theorem poll_loop_statuses:
  "((\<forall>i<n. \<exists>r. http R (trace w @ polls (VideoResult api_key generation_id) i @ [Sleep 20])
               (VideoResult api_key generation_id) = Inr r \<and> status_code r = 202) \<and>
    http R (trace w @ polls (VideoResult api_key generation_id) n @ [Sleep 20])
      (VideoResult api_key generation_id) = Inr response \<longrightarrow>
      (status_code response = 202 \<longrightarrow>
         poll_video_result R api_key generation_id output_path w =
         poll_video_result R api_key generation_id output_path
           (after_polls (VideoResult api_key generation_id) (Suc n) w)) \<and>
      (status_code response = 200 \<longrightarrow>
         poll_video_result R api_key generation_id output_path w =
         Some (None, write_file output_path (Blob (content response))
                 (after_polls (VideoResult api_key generation_id) (Suc n) w))) \<and>
      (400 \<le> status_code response \<and> status_code response < 600 \<longrightarrow>
         poll_video_result R api_key generation_id output_path w =
         Some (Some (HTTPError (status_code response)),
               after_polls (VideoResult api_key generation_id) (Suc n) w))) \<and>
   ((\<forall>h. \<exists>r. http R h (VideoResult api_key generation_id) = Inr r \<and> status_code r = 202) \<longrightarrow>
      poll_video_result R api_key generation_id output_path w = None)"
proof (intro conjI impI; (elim conjE)?)
  let ?req = "VideoResult api_key generation_id"
  let ?wn = "after_polls ?req n w"
  assume first: "\<forall>i<n. \<exists>r. http R (trace w @ polls ?req i @ [Sleep 20]) ?req = Inr r
      \<and> status_code r = 202"
    and last: "http R (trace w @ polls ?req n @ [Sleep 20]) ?req = Inr response"
  from first have to_n: "poll_video_result R api_key generation_id output_path w =
      poll_video_result R api_key generation_id output_path ?wn"
    by (rule poll_after_processing)
  from last have last': "http R (trace ?wn @ [Sleep 20]) ?req = Inr response"
    by (simp add: after_polls_def)
  have suc: "after_polls ?req (Suc 0) ?wn = after_polls ?req (Suc n) w"
    by (rule after_one_after_polls)
  {
    assume "status_code response = 202"
    with last' to_n suc
    show "poll_video_result R api_key generation_id output_path w =
         poll_video_result R api_key generation_id output_path (after_polls ?req (Suc n) w)"
      by (simp add: poll_again [OF last'])
  }
  {
    assume "status_code response = 200"
    with last' to_n suc
    show "poll_video_result R api_key generation_id output_path w =
         Some (None, write_file output_path (Blob (content response))
                 (after_polls ?req (Suc n) w))"
      by (simp add: poll_ready [OF last'])
  }
  {
    assume "400 \<le> status_code response" "status_code response < 600"
    with last' to_n suc
    show "poll_video_result R api_key generation_id output_path w =
         Some (Some (HTTPError (status_code response)), after_polls ?req (Suc n) w)"
      by (simp add: poll_failed [OF last'])
  }
next
  assume "\<forall>h. \<exists>r. http R h (VideoResult api_key generation_id) = Inr r \<and> status_code r = 202"
  then show "poll_video_result R api_key generation_id output_path w = None"
    by (rule poll_never_returns)
qed

text \<open>
  C7. On a 202 status the loop polls again after 20 seconds and on a 200 status it writes
  the video and exits, but it does not end the fetch on every other status: lines 136 and
  137 call \<^verbatim>\<open>raise_for_status\<close> for every status other than 200 and 202, and that call
  raises for 400 to 599 only. With a service that answers the first poll with 304 (a
  non-success status on which nothing is raised) and the second with 200, the fetch of
  scene 1 on an empty disk sleeps and polls a second time and writes the video, instead
  of ending as a failure after the first answer.
\<close>

theorem poll_continues_on_304:
  "raise_for_status \<lparr>status_code = 304, content = [], body_json = None\<rparr> = None \<and>
   generate_video (video_service (Suc 0) 304 200) (example_scene 1 (Some ''video'')) ''sk''
       (disk []) =
     Some \<lparr>fs = [''visual_assets/scene_1.mp4'' \<mapsto> Blob ''MP4 bytes''],
           trace = [Call (GenerateVideo ''sk'' ''a prompt''),
                    Sleep 20, Call (VideoResult ''sk'' (JStr ''job-1'')),
                    Sleep 20, Call (VideoResult ''sk'' (JStr ''job-1''))]\<rparr>"
  apply (simp add: generate_video_def generate_video_try_def Let_def exists_path_def disk_def
      raise_for_status_def example_scene_def log_event_def)
  apply (simp add: video_service_def)
  apply (subst poll_video_result.simps)
  apply (simp add: Let_def log_event_def raise_for_status_def video_service_def)
  apply (subst poll_video_result.simps)
  apply (simp add: Let_def log_event_def raise_for_status_def video_service_def write_file_def
      except_print_def)
  done

text \<open>
  The documented statuses at concrete inputs, on an empty disk: two answers of 202 and then 200
  give three rounds and the file; two answers of 202 and then 503 give three rounds, the
  error and no file; 202 for ever gives a loop that never returns.
\<close>

theorem poll_loop_statuses_witness:
  "poll_video_result (video_service (Suc (Suc 0)) 202 200) ''sk'' (JStr ''job-1'')
      ''visual_assets/scene_1.mp4'' (disk []) =
     Some (None,
       \<lparr>fs = [''visual_assets/scene_1.mp4'' \<mapsto> Blob ''MP4 bytes''],
        trace = [Sleep 20, Call (VideoResult ''sk'' (JStr ''job-1'')),
                 Sleep 20, Call (VideoResult ''sk'' (JStr ''job-1'')),
                 Sleep 20, Call (VideoResult ''sk'' (JStr ''job-1''))]\<rparr>) \<and>
   poll_video_result (video_service (Suc (Suc 0)) 202 503) ''sk'' (JStr ''job-1'')
      ''visual_assets/scene_1.mp4'' (disk []) =
     Some (Some (HTTPError 503),
       \<lparr>fs = Map.empty,
        trace = [Sleep 20, Call (VideoResult ''sk'' (JStr ''job-1'')),
                 Sleep 20, Call (VideoResult ''sk'' (JStr ''job-1'')),
                 Sleep 20, Call (VideoResult ''sk'' (JStr ''job-1''))]\<rparr>) \<and>
   poll_video_result (video_service (Suc (Suc 0)) 202 202) ''sk'' (JStr ''job-1'')
      ''visual_assets/scene_1.mp4'' (disk []) = None"
proof -
  let ?req = "VideoResult ''sk'' (JStr ''job-1'')"
  let ?out = "''visual_assets/scene_1.mp4''"
  have after: "after_polls ?req (Suc (Suc (Suc 0))) (disk []) =
      \<lparr>fs = Map.empty, trace = [Sleep 20, Call ?req, Sleep 20, Call ?req, Sleep 20, Call ?req]\<rparr>"
    by (simp add: after_polls_def polls_def disk_def)
  from poll_loop_statuses
      [where R = "video_service (Suc (Suc 0)) 202 200" and n = "Suc (Suc 0)" and w = "disk []"
      and api_key = "''sk''" and generation_id = "JStr ''job-1''" and output_path = ?out
      and response = "\<lparr>status_code = 200, content = ''MP4 bytes'', body_json = None\<rparr>"]
    processing_twice [of 200] third_answer [of 200]
  have ready: "poll_video_result (video_service (Suc (Suc 0)) 202 200) ''sk'' (JStr ''job-1'') ?out
      (disk []) =
    Some (None, write_file ?out (Blob ''MP4 bytes'') (after_polls ?req (Suc (Suc (Suc 0))) (disk [])))"
    by simp
  from poll_loop_statuses
      [where R = "video_service (Suc (Suc 0)) 202 503" and n = "Suc (Suc 0)" and w = "disk []"
      and api_key = "''sk''" and generation_id = "JStr ''job-1''" and output_path = ?out
      and response = "\<lparr>status_code = 503, content = ''MP4 bytes'', body_json = None\<rparr>"]
    processing_twice [of 503] third_answer [of 503]
  have failed: "poll_video_result (video_service (Suc (Suc 0)) 202 503) ''sk'' (JStr ''job-1'') ?out
      (disk []) =
    Some (Some (HTTPError 503), after_polls ?req (Suc (Suc (Suc 0))) (disk []))"
    by simp
  from poll_loop_statuses
      [where R = "video_service (Suc (Suc 0)) 202 202" and n = 0 and w = "disk []"
      and api_key = "''sk''" and generation_id = "JStr ''job-1''" and output_path = ?out]
    always_processing
  have never: "poll_video_result (video_service (Suc (Suc 0)) 202 202) ''sk'' (JStr ''job-1'') ?out
      (disk []) = None"
    by blast
  from ready failed never show ?thesis
    by (simp add: after write_file_def)
qed

section \<open>Properties of the shot-list handler and the dispatch loop\<close>

text \<open>
  C6. A wrapper object whose \<^verbatim>\<open>scenes\<close> key holds a list of scene records, and the bare
  list of the same records, are handled alike: the handler stores the same shot list and
  reports the same outcome, whatever the session held before.
\<close>

theorem bare_list_same_as_wrapper:
  "map_of kvs ''scenes'' = Some (JArr records) \<Longrightarrow>
   generate_shot_list (JObj kvs) shot_list_df = generate_shot_list (JArr records) shot_list_df"
  by (simp add: generate_shot_list_def pick_scenes_list_def)

text \<open>C6 at two records: both shapes store the data frame of the two records.\<close>

theorem bare_list_same_as_wrapper_witness:
  "map_of [(''scenes'', JArr [example_record 1, example_record 2])] ''scenes'' =
     Some (JArr [example_record 1, example_record 2]) \<and>
   generate_shot_list (JObj [(''scenes'', JArr [example_record 1, example_record 2])])
     (DataFrame JNull) =
   generate_shot_list (JArr [example_record 1, example_record 2]) (DataFrame JNull) \<and>
   generate_shot_list (JArr [example_record 1, example_record 2]) (DataFrame JNull) =
     (DataFrame (JArr [example_record 1, example_record 2]), True)"
  using bare_list_same_as_wrapper [of "[(''scenes'', JArr [example_record 1, example_record 2])]"
      "[example_record 1, example_record 2]" "DataFrame JNull"]
  by (simp add: generate_shot_list_def pick_scenes_list_def)

text \<open>
  C10. Every scene yields exactly two tasks: the audio task and, after it, one task that
  is not an audio task, for the same scene. The second is the image fetcher for the visual
  type \<^verbatim>\<open>image\<close>, the stock-video fetcher for \<^verbatim>\<open>stock_footage\<close>, and the
  generated-video fetcher for every other value (missing, misspelled, or anything else).
  The dispatcher's task list is the tasks of the scenes, one scene after the other: twice
  as many tasks as scenes, as many audio tasks as scenes.
\<close>

theorem dispatch_two_tasks_default_video:
  "(\<exists>visual_task.
      scene_tasks cr scene =
        [Submit_generate_audio scene (elevenlabs_key cr) (voice_id cr), visual_task] \<and>
      \<not> is_audio_task visual_task \<and> task_scene visual_task = scene) \<and>
   (visual_type scene = Some ''image'' \<longrightarrow>
      scene_tasks cr scene =
        [Submit_generate_audio scene (elevenlabs_key cr) (voice_id cr),
         Submit_generate_image scene (stability_key cr)]) \<and>
   (visual_type scene = Some ''stock_footage'' \<longrightarrow>
      scene_tasks cr scene =
        [Submit_generate_audio scene (elevenlabs_key cr) (voice_id cr),
         Submit_download_stock_video scene (pexels_key cr)]) \<and>
   (visual_type scene \<noteq> Some ''image'' \<and> visual_type scene \<noteq> Some ''stock_footage'' \<longrightarrow>
      scene_tasks cr scene =
        [Submit_generate_audio scene (elevenlabs_key cr) (voice_id cr),
         Submit_generate_video scene (stability_key cr)]) \<and>
   future_tasks cr shot_list = concat (map (scene_tasks cr) shot_list) \<and>
   length (future_tasks cr shot_list) = 2 * length shot_list \<and>
   length (filter is_audio_task (future_tasks cr shot_list)) = length shot_list"
proof -
  have all: "future_tasks cr shot_list = concat (map (scene_tasks cr) shot_list)"
    by (induction shot_list) simp_all
  have len: "length (future_tasks cr shot_list) = 2 * length shot_list"
    by (induction shot_list) (simp_all add: scene_tasks_def)
  have audios: "length (filter is_audio_task (future_tasks cr shot_list)) = length shot_list"
    by (induction shot_list) (simp_all add: scene_tasks_def)
  from all len audios show ?thesis by (simp add: scene_tasks_def)
qed

text \<open>
  C10 at a scene with no visual type, one with the type \<^verbatim>\<open>Video\<close> (capitalised), an
  image scene and a stock scene; and the task list of a shot list of two scenes.
\<close>

theorem dispatch_two_tasks_default_video_witness:
  "scene_tasks example_credentials (example_scene 1 None) =
     [Submit_generate_audio (example_scene 1 None) ''ek'' ''voice'',
      Submit_generate_video (example_scene 1 None) ''sk''] \<and>
   scene_tasks example_credentials (example_scene 2 (Some ''Video'')) =
     [Submit_generate_audio (example_scene 2 (Some ''Video'')) ''ek'' ''voice'',
      Submit_generate_video (example_scene 2 (Some ''Video'')) ''sk''] \<and>
   scene_tasks example_credentials (example_scene 3 (Some ''image'')) =
     [Submit_generate_audio (example_scene 3 (Some ''image'')) ''ek'' ''voice'',
      Submit_generate_image (example_scene 3 (Some ''image'')) ''sk''] \<and>
   scene_tasks example_credentials (example_scene 4 (Some ''stock_footage'')) =
     [Submit_generate_audio (example_scene 4 (Some ''stock_footage'')) ''ek'' ''voice'',
      Submit_download_stock_video (example_scene 4 (Some ''stock_footage'')) ''pk''] \<and>
   future_tasks example_credentials
     [example_scene 1 None, example_scene 3 (Some ''image'')] =
     [Submit_generate_audio (example_scene 1 None) ''ek'' ''voice'',
      Submit_generate_video (example_scene 1 None) ''sk'',
      Submit_generate_audio (example_scene 3 (Some ''image'')) ''ek'' ''voice'',
      Submit_generate_image (example_scene 3 (Some ''image'')) ''sk''] \<and>
   length (filter is_audio_task (future_tasks example_credentials
     [example_scene 1 None, example_scene 3 (Some ''image'')])) = 2"
  using dispatch_two_tasks_default_video [of example_credentials "example_scene 1 None"
      "[example_scene 1 None, example_scene 3 (Some ''image'')]"]
    dispatch_two_tasks_default_video [of example_credentials "example_scene 2 (Some ''Video'')" "[]"]
    dispatch_two_tasks_default_video [of example_credentials "example_scene 3 (Some ''image'')" "[]"]
    dispatch_two_tasks_default_video
      [of example_credentials "example_scene 4 (Some ''stock_footage'')" "[]"]
  by (simp add: example_credentials_def example_scene_def)

section \<open>Properties of the assembler\<close>

text \<open>
  The assembler's own code raises nowhere, and the video library is symbolic, so
  \<open>assemble_video\<close> is a total function of the shot list and the files: dropping a scene
  is a branch of the loop, never a failure.
\<close>

text \<open>
  The order of the timeline. Whatever the order of the shot list, the scenes the assembler
  makes clips for are in ascending order of their scene number; when there is at least one, the video written
  holds exactly their clips in that order; and two shot lists with the same scenes in a
  different order give the same sequence of scene numbers. This is the order in which
  the clips are listed, not yet the order in which they play.
\<close>

theorem scenes_assembled_in_number_order:
  "sorted (map scene_number (assembled_scenes w shot_list)) \<and>
   (assembled_scenes w shot_list \<noteq> [] \<longrightarrow>
      video_composites (assemble_video cfg shot_list out w) out =
        map (scene_composite w) (assembled_scenes w shot_list)) \<and>
   (mset shuffled = mset shot_list \<longrightarrow>
      map scene_number (assembled_scenes w shuffled) =
      map scene_number (assembled_scenes w shot_list))"
proof (intro conjI impI)
  show "sorted (map scene_number (assembled_scenes w shot_list))"
    by (simp add: assembled_scenes_filter sorted_filter_sort_key)
next
  assume "assembled_scenes w shot_list \<noteq> []"
  then show "video_composites (assemble_video cfg shot_list out w) out =
        map (scene_composite w) (assembled_scenes w shot_list)"
    by (rule assemble_video_composites)
next
  assume "mset shuffled = mset shot_list"
  then show "map scene_number (assembled_scenes w shuffled) =
      map scene_number (assembled_scenes w shot_list)"
    by (rule assembled_numbers_shuffled)
qed

text \<open>
  The order of the timeline at the shot list with scene numbers 3, 1, 2 and all assets on
  disk: the clips of scenes 1, 2, 3 are listed in this order, as they are for the list in
  the order 1, 2, 3.
\<close>

theorem scenes_assembled_in_number_order_witness:
  "map scene_number shots_3_1_2 = [3, 1, 2] \<and>
   map scene_number (assembled_scenes disk_all shots_3_1_2) = [1, 2, 3] \<and>
   sorted (map scene_number (assembled_scenes disk_all shots_3_1_2)) \<and>
   map audio (video_composites
       (assemble_video example_config shots_3_1_2 ''final_video_output.mp4'' disk_all)
       ''final_video_output.mp4'') =
     [''audio_clips/scene_1.mp3'', ''audio_clips/scene_2.mp3'', ''audio_clips/scene_3.mp3''] \<and>
   mset shots_1_2_3 = mset shots_3_1_2 \<and>
   map scene_number (assembled_scenes disk_all shots_1_2_3) = [1, 2, 3]"
  using scenes_assembled_in_number_order
    [of disk_all shots_3_1_2 example_config "''final_video_output.mp4''" shots_1_2_3]
  by (simp add: assembled_disk_all)
    (simp add: shots_1_2_3_def shots_3_1_2_def example_scene_def scene_composite_def)

text \<open>
  C2. The scenes do not always appear in ascending order of their scene number. Each clip
  after the first is started at the end of its predecessor minus the transition duration
  (line 189), whatever the length of the predecessor. For the shot list with scene
  numbers 3, 1, 2, all assets on disk, a transition of 1 second and narrations of 5, 0.5
  and 5 seconds for scenes 1, 2 and 3, the clips are listed in the order 1, 2, 3, but
  scene 2 starts at 4 seconds and scene 3 at 3.5 seconds: scene 3 appears before scene 2.
  (All these numbers and their sums and differences are exact as floats.)
\<close>

theorem short_scene_plays_out_of_order:
  "map scene_number shots_3_1_2 = [3, 1, 2] \<and>
   map scene_number (assembled_scenes disk_all shots_3_1_2) = [1, 2, 3] \<and>
   map audio (video_composites
       (assemble_video example_config shots_3_1_2 ''final_video_output.mp4'' disk_all)
       ''final_video_output.mp4'') =
     [''audio_clips/scene_1.mp3'', ''audio_clips/scene_2.mp3'', ''audio_clips/scene_3.mp3''] \<and>
   video_start_times half_second_scene_2
       (assemble_video example_config shots_3_1_2 ''final_video_output.mp4'' disk_all)
       ''final_video_output.mp4'' = [0, 4, 7 / 2] \<and>
   \<not> sorted (video_start_times half_second_scene_2
       (assemble_video example_config shots_3_1_2 ''final_video_output.mp4'' disk_all)
       ''final_video_output.mp4'')"
proof -
  have starts: "video_start_times half_second_scene_2
       (assemble_video example_config shots_3_1_2 ''final_video_output.mp4'' disk_all)
       ''final_video_output.mp4'' = [0, 4, 7 / 2]"
    by (simp add: video_start_times_def video_timeline_def assemble_video_via_assembled
        assembled_disk_all write_file_def with_transitions_hd_tl scene_composite_def
        example_scene_def example_config_def half_second_scene_2_def Let_def)
  have comps: "map audio (video_composites
       (assemble_video example_config shots_3_1_2 ''final_video_output.mp4'' disk_all)
       ''final_video_output.mp4'') =
     [''audio_clips/scene_1.mp3'', ''audio_clips/scene_2.mp3'', ''audio_clips/scene_3.mp3'']"
    by (simp add: assemble_video_composites assembled_disk_all scene_composite_def
        example_scene_def)
  have given: "map scene_number shots_3_1_2 = [3, 1, 2]"
    by (simp add: shots_3_1_2_def example_scene_def)
  have numbers: "map scene_number (assembled_scenes disk_all shots_3_1_2) = [1, 2, 3]"
    by (simp add: assembled_disk_all example_scene_def)
  have "\<not> (4::rat) \<le> 7 / 2"
    by simp
  then have "\<not> sorted [0, 4, 7 / 2 :: rat]"
    by (auto simp del: sorted_wrt.simps simp add: sorted2_simps)
  then have unsorted: "\<not> sorted (video_start_times half_second_scene_2
       (assemble_video example_config shots_3_1_2 ''final_video_output.mp4'' disk_all)
       ''final_video_output.mp4'')"
    unfolding starts .
  from given numbers comps starts unsorted show ?thesis
    by (intro conjI)
qed

text \<open>
  C3. For a scene of the shot list: if its audio file is absent, no clip is made for it
  and the assembler does exactly what it does for the shot list without that scene; if its
  audio file and one of its visual files are present, it is among the assembled scenes, and
  the video written holds exactly the clips of the assembled scenes.
\<close>

theorem missing_audio_dropped_complete_included:
  assumes "scene \<in> set shot_list"
  shows
  "(\<not> exists_path w (audio_path_of (scene_number scene)) \<longrightarrow>
      scene \<notin> set (assembled_scenes w shot_list) \<and>
      assemble_video cfg shot_list out w = assemble_video cfg (removeAll scene shot_list) out w) \<and>
   (exists_path w (audio_path_of (scene_number scene)) \<and>
    (exists_path w (video_path_of (scene_number scene)) \<or>
     exists_path w (image_path_of (scene_number scene))) \<longrightarrow>
      scene \<in> set (assembled_scenes w shot_list) \<and>
      video_composites (assemble_video cfg shot_list out w) out =
        map (scene_composite w) (assembled_scenes w shot_list))"
proof (intro conjI impI)
  assume "\<not> exists_path w (audio_path_of (scene_number scene))"
  then have no: "\<not> has_assets w scene" by (simp add: has_assets_paths)
  then show "scene \<notin> set (assembled_scenes w shot_list)"
    by (simp add: assembled_scenes_filter)
  from no show "assemble_video cfg shot_list out w =
      assemble_video cfg (removeAll scene shot_list) out w"
    by (simp add: assemble_video_removeAll)
next
  assume "exists_path w (audio_path_of (scene_number scene)) \<and>
    (exists_path w (video_path_of (scene_number scene)) \<or>
     exists_path w (image_path_of (scene_number scene)))"
  then have "has_assets w scene" by (simp add: has_assets_paths)
  with assms show in_it: "scene \<in> set (assembled_scenes w shot_list)"
    by (simp add: assembled_scenes_filter)
  then have "assembled_scenes w shot_list \<noteq> []" by auto
  then show "video_composites (assemble_video cfg shot_list out w) out =
        map (scene_composite w) (assembled_scenes w shot_list)"
    by (rule assemble_video_composites)
qed

text \<open>
  C3 at the shot list 1, 2, 3 where scene 2 has no audio file and scenes 1 and 3 are
  complete: the video holds exactly the clips of scenes 1 and 3.
\<close>

theorem missing_audio_dropped_complete_included_witness:
  "example_scene 2 (Some ''image'') \<in> set shots_1_2_3 \<and>
   \<not> exists_path disk_1_3 (audio_path_of 2) \<and>
   example_scene 2 (Some ''image'') \<notin> set (assembled_scenes disk_1_3 shots_1_2_3) \<and>
   example_scene 3 (Some ''image'') \<in> set shots_1_2_3 \<and>
   exists_path disk_1_3 (audio_path_of 3) \<and> exists_path disk_1_3 (image_path_of 3) \<and>
   example_scene 3 (Some ''image'') \<in> set (assembled_scenes disk_1_3 shots_1_2_3) \<and>
   map scene_number (assembled_scenes disk_1_3 shots_1_2_3) = [1, 3] \<and>
   map audio (video_composites
       (assemble_video example_config shots_1_2_3 ''final_video_output.mp4'' disk_1_3)
       ''final_video_output.mp4'') =
     [''audio_clips/scene_1.mp3'', ''audio_clips/scene_3.mp3'']"
  using missing_audio_dropped_complete_included
      [of "example_scene 2 (Some ''image'')" shots_1_2_3 disk_1_3 example_config
      "''final_video_output.mp4''"]
    missing_audio_dropped_complete_included
      [of "example_scene 3 (Some ''image'')" shots_1_2_3 disk_1_3 example_config
      "''final_video_output.mp4''"]
  by (simp add: assembled_disk_1_3)
    (simp add: shots_1_2_3_def example_scene_def scene_composite_def exists_path_def
      disk_1_3_def disk_def)

text \<open>
  C4. If no scene of the shot list has its audio file together with one of its visual
  files, the assembler returns the state it was given: no output file is written, nothing
  else changes.
\<close>

theorem no_eligible_scene_no_output:
  assumes "\<forall>scene \<in> set shot_list.
     \<not> (exists_path w (audio_path_of (scene_number scene)) \<and>
        (exists_path w (video_path_of (scene_number scene)) \<or>
         exists_path w (image_path_of (scene_number scene))))"
  shows "assemble_video cfg shot_list out w = w"
proof -
  from assms have "\<forall>scene \<in> set shot_list. \<not> has_assets w scene"
    by (simp add: has_assets_paths)
  then have "assembled_scenes w shot_list = []"
    by (simp add: assembled_scenes_filter)
  then show ?thesis by (rule assemble_video_noop)
qed

text \<open>
  C4 at a disk where scene 1 has audio only and scenes 2 and 3 a visual only: the
  assembler returns the disk as it was, and there is no output file.
\<close>

theorem no_eligible_scene_no_output_witness:
  "exists_path disk_nothing_complete (audio_path_of 1) \<and>
   exists_path disk_nothing_complete (image_path_of 2) \<and>
   exists_path disk_nothing_complete (video_path_of 3) \<and>
   assemble_video example_config shots_1_2_3 ''final_video_output.mp4'' disk_nothing_complete =
     disk_nothing_complete \<and>
   fs (assemble_video example_config shots_1_2_3 ''final_video_output.mp4''
         disk_nothing_complete) ''final_video_output.mp4'' = None"
  using no_eligible_scene_no_output
    [of shots_1_2_3 disk_nothing_complete example_config "''final_video_output.mp4''"]
  by (simp add: shots_1_2_3_def example_scene_def exists_path_def
      disk_nothing_complete_def disk_def)

text \<open>
  C9. A scene of the shot list whose audio file exists while neither its video file nor
  its image file does gets no clip either: the assembler does exactly what it does for the
  shot list without that scene.
\<close>

theorem missing_visual_dropped:
  assumes "scene \<in> set shot_list"
    and "exists_path w (audio_path_of (scene_number scene))"
    and "\<not> exists_path w (video_path_of (scene_number scene))"
    and "\<not> exists_path w (image_path_of (scene_number scene))"
  shows "scene \<notin> set (assembled_scenes w shot_list) \<and>
    assemble_video cfg shot_list out w = assemble_video cfg (removeAll scene shot_list) out w"
proof -
  from assms have no: "\<not> has_assets w scene" by (simp add: has_assets_paths)
  then show ?thesis
    by (simp add: assembled_scenes_filter assemble_video_removeAll)
qed

text \<open>
  C9 at the shot list 1, 2, 3 where scene 2 has its audio and no visual: the result is
  the one for the shot list 1, 3.
\<close>

theorem missing_visual_dropped_witness:
  "example_scene 2 (Some ''image'') \<in> set shots_1_2_3 \<and>
   exists_path disk_audio_only_2 (audio_path_of 2) \<and>
   \<not> exists_path disk_audio_only_2 (video_path_of 2) \<and>
   \<not> exists_path disk_audio_only_2 (image_path_of 2) \<and>
   example_scene 2 (Some ''image'') \<notin> set (assembled_scenes disk_audio_only_2 shots_1_2_3) \<and>
   map scene_number (assembled_scenes disk_audio_only_2 shots_1_2_3) = [1, 3] \<and>
   assemble_video example_config shots_1_2_3 ''final_video_output.mp4'' disk_audio_only_2 =
   assemble_video example_config
     [example_scene 1 (Some ''video''), example_scene 3 (Some ''image'')]
     ''final_video_output.mp4'' disk_audio_only_2"
  using missing_visual_dropped
     [of "example_scene 2 (Some ''image'')" shots_1_2_3 disk_audio_only_2 example_config
      "''final_video_output.mp4''"]
  by (simp add: assembled_disk_audio_only_2)
    (simp add: shots_1_2_3_def example_scene_def exists_path_def
      disk_audio_only_2_def disk_def)

end
